theory Spec2Isabelle
  imports Main
begin

section \<open>Paths, the file system and errors\<close>

text \<open>
  A \<^verbatim>\<open>pathlib.Path\<close> is the list of its components; the anchor of an absolute path is
  the empty first component. \<^verbatim>\<open>p / name\<close> with a plain entry name (what
  \<^verbatim>\<open>os.listdir\<close> yields, and the two fixed file names) appends one component.
  \<open>path_str\<close> is \<^verbatim>\<open>str\<close>: the empty path is \<^verbatim>\<open>.\<close>, the bare root is \<^verbatim>\<open>/\<close>.
\<close>

type_synonym path = "string list"

definition joinpath :: "path \<Rightarrow> string \<Rightarrow> path" where
  "joinpath p name = p @ [name]"

fun path_str :: "path \<Rightarrow> string" where
  "path_str [] = ''.''"
| "path_str [c] = (if c = [] then ''/'' else c)"
| "path_str (c # d # cs) = c @ ''/'' @ path_str (d # cs)"

text \<open>
  The part of \<^verbatim>\<open>os\<close> the code uses. \<^verbatim>\<open>os.path.isdir\<close> and \<^verbatim>\<open>os.path.isfile\<close>
  never raise; \<^verbatim>\<open>os.listdir\<close> may raise an \<^verbatim>\<open>OSError\<close> (\<open>Inl\<close> its message).
\<close>

record os =
  os_path_isdir :: "path \<Rightarrow> bool"
  os_path_isfile :: "path \<Rightarrow> bool"
  os_listdir :: "path \<Rightarrow> string + string list"

text \<open>
  Every exception of the source is a value. \<open>ModelUnknownError\<close>, \<open>NotADirectoryError\<close>
  and \<open>FileNotFoundError\<close> are raised by the code itself; \<open>AttributeError\<close> is what
  Python raises on reading an attribute that is not there; \<open>Propagated\<close> wraps an
  exception raised inside a delegated call (\<^verbatim>\<open>os\<close>, \<^verbatim>\<open>melloddy_tuner\<close>,
  \<^verbatim>\<open>sparsechem\<close>, \<^verbatim>\<open>torch\<close>), which the code never catches.
\<close>

datatype error =
  ModelUnknownError string
| NotADirectoryError string
| FileNotFoundError path
| AttributeError string
| Propagated string

section \<open>The delegated libraries\<close>

text \<open>
  Objects owned by the libraries (data frames, sparse matrices, networks, state dicts,
  datasets, loaders, arrays, configuration values) are opaque values of type \<open>'o\<close>.
  The configuration namespace returned by \<^verbatim>\<open>sparsechem.load_results(..)["conf"]\<close> is a
  \<^verbatim>\<open>SimpleNamespace\<close>: a finite map from attribute names to values.
\<close>

type_synonym 'o conf = "string \<rightharpoonup> 'o"

datatype argval = AStr string | AInt int | ABool bool | ANone

type_synonym namespace = "string \<rightharpoonup> argval"

text \<open>
  The library functions are parameters of the model. Each returns \<open>Inl msg\<close> when it
  raises. \<open>shape0\<close> is the attribute read \<^verbatim>\<open>data.shape[0]\<close>.
\<close>

record 'o libs =
  mt_read_input_file :: "string \<Rightarrow> string + 'o"
  mt_do_prepare_prediction_online :: "namespace \<Rightarrow> 'o \<Rightarrow> string + 'o"
  sc_load_results :: "string \<Rightarrow> bool \<Rightarrow> string + 'o conf"
  sc_SparseFFN :: "'o conf \<Rightarrow> string + 'o"
  sc_fold_transform_inputs :: "'o \<Rightarrow> 'o \<Rightarrow> 'o \<Rightarrow> string + 'o"
  sc_load_check_sparse :: "string option \<Rightarrow> 'o \<times> 'o \<Rightarrow> string + 'o"
  sc_ClassRegrSparseDataset :: "'o \<Rightarrow> 'o \<Rightarrow> 'o \<Rightarrow> string + 'o"
  sc_predict :: "'o \<Rightarrow> 'o \<Rightarrow> string \<Rightarrow> int \<Rightarrow> bool \<Rightarrow> string + 'o \<times> 'o"
  torch_to :: "'o \<Rightarrow> string \<Rightarrow> string + 'o"
  torch_device :: "string \<Rightarrow> string + 'o"
  torch_load :: "path \<Rightarrow> 'o \<Rightarrow> string + 'o"
  torch_load_state_dict :: "'o \<Rightarrow> 'o \<Rightarrow> string + 'o"
  torch_DataLoader :: "'o \<Rightarrow> nat \<Rightarrow> nat \<Rightarrow> bool \<Rightarrow> string + 'o"
  shape0 :: "'o \<Rightarrow> 'o"

text \<open>
  Every delegated call leaves an event, with its arguments, in the order the calls are
  made. The constructor names the module the source calls.
\<close>

datatype 'o event =
  MT_read_input_file string
| MT_do_prepare_prediction_online namespace 'o
| SC_load_results string bool
| SC_SparseFFN "'o conf"
| SC_fold_transform_inputs 'o 'o 'o
| SC_load_check_sparse "string option" "'o \<times> 'o"
| SC_ClassRegrSparseDataset 'o 'o 'o
| SC_predict 'o 'o string int bool
| Torch_to 'o string
| Torch_device string
| Torch_load path 'o
| Torch_load_state_dict 'o 'o
| Torch_DataLoader 'o nat nat bool

datatype library = Melloddy_tuner | Sparsechem | Torch

fun library_of :: "'o event \<Rightarrow> library" where
  "library_of (MT_read_input_file _) = Melloddy_tuner"
| "library_of (MT_do_prepare_prediction_online _ _) = Melloddy_tuner"
| "library_of (SC_load_results _ _) = Sparsechem"
| "library_of (SC_SparseFFN _) = Sparsechem"
| "library_of (SC_fold_transform_inputs _ _ _) = Sparsechem"
| "library_of (SC_load_check_sparse _ _) = Sparsechem"
| "library_of (SC_ClassRegrSparseDataset _ _ _) = Sparsechem"
| "library_of (SC_predict _ _ _ _ _) = Sparsechem"
| "library_of (Torch_to _ _) = Torch"
| "library_of (Torch_device _) = Torch"
| "library_of (Torch_load _ _) = Torch"
| "library_of (Torch_load_state_dict _ _) = Torch"
| "library_of (Torch_DataLoader _ _ _ _) = Torch"

section \<open>The per-model handle\<close>

text \<open>
  \<^verbatim>\<open>class Model\<close>. The attributes \<^verbatim>\<open>_conf\<close>, \<^verbatim>\<open>_model\<close> and \<^verbatim>\<open>_device\<close> do not exist
  until they are assigned: \<open>None\<close> is the missing attribute. The stored values are a
  \<^verbatim>\<open>SimpleNamespace\<close> and a \<^verbatim>\<open>SparseFFN\<close> module, objects that are always true in a
  boolean test, so \<^verbatim>\<open>not hasattr(self, "_conf") or not self._conf\<close> holds exactly when
  the attribute is missing.
\<close>

record 'o Model =
  m_path :: path
  m_conf_path :: path
  m_model_path :: path
  m_conf :: "'o conf option"
  m_model :: "'o option"
  m_device :: "string option"

text \<open>\<^verbatim>\<open>Model.__init__\<close>\<close>

definition Model_init :: "os \<Rightarrow> path \<Rightarrow> error + 'o Model" where
  "Model_init fs p =
     (let cp = joinpath p ''hyperparameters.json'';
          mp = joinpath p ''model.pth''
      in if \<not> os_path_isfile fs cp then Inl (FileNotFoundError cp)
         else if \<not> os_path_isfile fs mp then Inl (FileNotFoundError mp)
         else Inr \<lparr>m_path = p, m_conf_path = cp, m_model_path = mp,
                   m_conf = None, m_model = None, m_device = None\<rparr>)"

text \<open>
  A method of a model is a function from the model to a result (or the exception
  raised), the model as the method leaves it, and the delegated calls it made.
\<close>

type_synonym ('a, 'o) act = "'o Model \<Rightarrow> (error + 'a) \<times> 'o Model \<times> 'o event list"

definition ret :: "'a \<Rightarrow> ('a, 'o) act" where
  "ret a m = (Inr a, m, [])"

definition throw :: "error \<Rightarrow> ('a, 'o) act" where
  "throw e m = (Inl e, m, [])"

definition bind :: "('a, 'o) act \<Rightarrow> ('a \<Rightarrow> ('b, 'o) act) \<Rightarrow> ('b, 'o) act" where
  "bind f g m =
     (case f m of
        (Inl e, m', es) \<Rightarrow> (Inl e, m', es)
      | (Inr a, m', es) \<Rightarrow> (case g a m' of (r, m'', es') \<Rightarrow> (r, m'', es @ es')))"

text \<open>A delegated call: the event is logged, an exception of the library propagates.\<close>

definition call :: "'o event \<Rightarrow> string + 'a \<Rightarrow> ('a, 'o) act" where
  "call ev res m =
     (case res of Inl msg \<Rightarrow> (Inl (Propagated msg), m, [ev]) | Inr v \<Rightarrow> (Inr v, m, [ev]))"

definition assign :: "('o Model \<Rightarrow> 'o Model) \<Rightarrow> (unit, 'o) act" where
  "assign f m = (Inr (), f m, [])"

text \<open>Reading \<^verbatim>\<open>self._model\<close>, \<^verbatim>\<open>self._device\<close> and \<^verbatim>\<open>self._model_path\<close>.\<close>

definition read_model :: "('o, 'o) act" where
  "read_model m =
     (case m_model m of None \<Rightarrow> throw (AttributeError ''_model'') m | Some n \<Rightarrow> ret n m)"

definition read_device :: "(string, 'o) act" where
  "read_device m =
     (case m_device m of None \<Rightarrow> throw (AttributeError ''_device'') m | Some d \<Rightarrow> ret d m)"

definition read_model_path :: "(path, 'o) act" where
  "read_model_path m = ret (m_model_path m) m"

text \<open>Attribute access on the configuration namespace.\<close>

definition getattr :: "'o conf \<Rightarrow> string \<Rightarrow> ('o, 'o) act" where
  "getattr c name = (case c name of None \<Rightarrow> throw (AttributeError name) | Some v \<Rightarrow> ret v)"

text \<open>The property \<^verbatim>\<open>Model.conf\<close>\<close>

definition Model_conf :: "'o libs \<Rightarrow> ('o conf, 'o) act" where
  "Model_conf lib m =
     (case m_conf m of
        Some c \<Rightarrow> ret c m
      | None \<Rightarrow>
          bind (call (SC_load_results (path_str (m_conf_path m)) True)
                     (sc_load_results lib (path_str (m_conf_path m)) True))
               (\<lambda>c. bind (assign (\<lambda>m. m\<lparr>m_conf := Some c\<rparr>)) (\<lambda>_. ret c)) m)"

definition Model_class_output_size :: "'o libs \<Rightarrow> ('o, 'o) act" where
  "Model_class_output_size lib = bind (Model_conf lib) (\<lambda>c. getattr c ''class_output_size'')"

definition Model_regr_output_size :: "'o libs \<Rightarrow> ('o, 'o) act" where
  "Model_regr_output_size lib = bind (Model_conf lib) (\<lambda>c. getattr c ''regr_output_size'')"

definition Model_fold_inputs :: "'o libs \<Rightarrow> ('o, 'o) act" where
  "Model_fold_inputs lib = bind (Model_conf lib) (\<lambda>c. getattr c ''fold_inputs'')"

definition Model_input_transform :: "'o libs \<Rightarrow> ('o, 'o) act" where
  "Model_input_transform lib = bind (Model_conf lib) (\<lambda>c. getattr c ''input_transform'')"

text \<open>
  \<^verbatim>\<open>Model.load\<close>: \<open>load_steps\<close> is the body of its \<^verbatim>\<open>if\<close>.
  \<^verbatim>\<open>load_state_dict\<close> changes the network object in place: the stored network
  becomes the one with the weights.
\<close>

definition load_steps :: "'o libs \<Rightarrow> string \<Rightarrow> (unit, 'o) act" where
  "load_steps lib device =
     bind (assign (\<lambda>m. m\<lparr>m_device := Some device\<rparr>)) (\<lambda>_.
     bind (Model_conf lib) (\<lambda>c.
     bind (call (SC_SparseFFN c) (sc_SparseFFN lib c)) (\<lambda>net0.
     bind read_device (\<lambda>dev.
     bind (call (Torch_to net0 dev) (torch_to lib net0 dev)) (\<lambda>net.
     bind (assign (\<lambda>m. m\<lparr>m_model := Some net\<rparr>)) (\<lambda>_.
     bind read_model_path (\<lambda>mp.
     bind read_device (\<lambda>dev'.
     bind (call (Torch_device dev') (torch_device lib dev')) (\<lambda>d.
     bind (call (Torch_load mp d) (torch_load lib mp d)) (\<lambda>state.
     bind read_model (\<lambda>n.
     bind (call (Torch_load_state_dict n state) (torch_load_state_dict lib n state)) (\<lambda>n'.
     assign (\<lambda>m. m\<lparr>m_model := Some n'\<rparr>)))))))))))))"

definition Model_load :: "'o libs \<Rightarrow> string \<Rightarrow> (unit, 'o) act" where
  "Model_load lib device m =
     (case m_model m of
        Some _ \<Rightarrow> ret () m
      | None \<Rightarrow> load_steps lib device m)"

text \<open>
  \<^verbatim>\<open>Model.predict\<close>: \<^verbatim>\<open>sparsechem.predict(net=self._model, loader=data, dev=self._device,
  dropout=0, progress=False, y_cat_columns=None)\<close>.
\<close>

definition Model_predict :: "'o libs \<Rightarrow> 'o \<Rightarrow> ('o \<times> 'o, 'o) act" where
  "Model_predict lib data =
     bind read_model (\<lambda>n.
     bind read_device (\<lambda>dev.
     call (SC_predict n data dev 0 False) (sc_predict lib n data dev 0 False)))"

section \<open>The per-deployment registry\<close>

record 'o PredictionSystem =
  ps_device :: string
  ps_tuner_encryption_key :: path
  ps_tuner_configuration_parameters :: path
  ps_models :: "string \<rightharpoonup> 'o Model"

text \<open>The loop of \<^verbatim>\<open>PredictionSystem.__init__\<close> over the directory's entries.\<close>

fun build_models ::
  "os \<Rightarrow> path \<Rightarrow> string list \<Rightarrow> (string \<rightharpoonup> 'o Model) \<Rightarrow> error + (string \<rightharpoonup> 'o Model)" where
  "build_models fs model_folder [] models = Inr models"
| "build_models fs model_folder (dirname # rest) models =
     (case Model_init fs (joinpath model_folder dirname) of
        Inl e \<Rightarrow> Inl e
      | Inr m \<Rightarrow> build_models fs model_folder rest (models(dirname \<mapsto> m)))"

text \<open>\<^verbatim>\<open>PredictionSystem.__init__\<close>\<close>

definition PredictionSystem_init ::
  "os \<Rightarrow> path \<Rightarrow> path \<Rightarrow> path \<Rightarrow> string \<Rightarrow> error + 'o PredictionSystem" where
  "PredictionSystem_init fs model_folder encryption_key preparation_parameters device =
     (if \<not> os_path_isdir fs model_folder
      then Inl (NotADirectoryError (path_str model_folder @ '' is not a directory''))
      else case os_listdir fs model_folder of
             Inl msg \<Rightarrow> Inl (Propagated msg)
           | Inr names \<Rightarrow>
               (case build_models fs model_folder names Map.empty of
                  Inl e \<Rightarrow> Inl e
                | Inr models \<Rightarrow>
                    Inr \<lparr>ps_device = device,
                         ps_tuner_encryption_key = encryption_key,
                         ps_tuner_configuration_parameters = preparation_parameters,
                         ps_models = models\<rparr>))"

text \<open>The module constants and \<^verbatim>\<open>_build_data_preparation_args\<close>.\<close>

definition STRUCTURE_FILE :: string where "STRUCTURE_FILE = ''structure_file''"
definition CONFIG_FILE :: string where "CONFIG_FILE = ''config_file''"
definition KEY_FILE :: string where "KEY_FILE = ''key_file''"
definition RUN_NAME :: string where "RUN_NAME = ''run_name''"
definition NUMBER_CPU :: string where "NUMBER_CPU = ''number_cpu''"
definition REF_HASH :: string where "REF_HASH = ''ref_hash''"
definition NON_INTERACTIVE :: string where "NON_INTERACTIVE = ''non_interactive''"
definition PREPARATION_RUN_NAME :: string where "PREPARATION_RUN_NAME = ''mms''"

definition build_data_preparation_args :: "'o PredictionSystem \<Rightarrow> path \<Rightarrow> namespace" where
  "build_data_preparation_args ps data_file =
     (((((((Map.empty
       (STRUCTURE_FILE \<mapsto> AStr (path_str data_file)))
       (CONFIG_FILE \<mapsto> AStr (path_str (ps_tuner_configuration_parameters ps))))
       (KEY_FILE \<mapsto> AStr (path_str (ps_tuner_encryption_key ps))))
       (RUN_NAME \<mapsto> AStr PREPARATION_RUN_NAME))
       (NUMBER_CPU \<mapsto> AInt 1))
       (NON_INTERACTIVE \<mapsto> ABool True))
       (REF_HASH \<mapsto> ANone))"

text \<open>\<^verbatim>\<open>_get_model\<close>: the \<^verbatim>\<open>KeyError\<close> of the dictionary becomes \<^verbatim>\<open>ModelUnknownError\<close>.\<close>

definition get_model :: "'o PredictionSystem \<Rightarrow> string \<Rightarrow> error + 'o Model" where
  "get_model ps model_name =
     (case ps_models ps model_name of
        None \<Rightarrow> Inl (ModelUnknownError ''Requested model does not exist'')
      | Some model \<Rightarrow> Inr model)"

text \<open>
  The body of \<^verbatim>\<open>PredictionSystem.predict\<close> after the lookup, as a method of the
  model found. Arguments are evaluated left to right, so a configuration attribute is
  read (and the configuration loaded, when it is not stored) just before the call that
  takes it. The loader is built with \<^verbatim>\<open>batch_size=4000, num_workers=4, pin_memory=True\<close>;
  its \<^verbatim>\<open>collate_fn\<close> is a method of the data set it is given.
\<close>

definition predict_steps :: "'o libs \<Rightarrow> 'o PredictionSystem \<Rightarrow> path \<Rightarrow> ('o \<times> 'o, 'o) act" where
  "predict_steps lib ps smiles =
     bind (call (MT_read_input_file (path_str smiles))
                (mt_read_input_file lib (path_str smiles))) (\<lambda>df.
     bind (call (MT_do_prepare_prediction_online (build_data_preparation_args ps smiles) df)
                (mt_do_prepare_prediction_online lib (build_data_preparation_args ps smiles) df)) (\<lambda>data0.
     bind (Model_fold_inputs lib) (\<lambda>folding_size.
     bind (Model_input_transform lib) (\<lambda>transform.
     bind (call (SC_fold_transform_inputs data0 folding_size transform)
                (sc_fold_transform_inputs lib data0 folding_size transform)) (\<lambda>data.
     bind (Model_class_output_size lib) (\<lambda>cs.
     bind (call (SC_load_check_sparse None (shape0 lib data, cs))
                (sc_load_check_sparse lib None (shape0 lib data, cs))) (\<lambda>y_class.
     bind (Model_regr_output_size lib) (\<lambda>rs.
     bind (call (SC_load_check_sparse None (shape0 lib data, rs))
                (sc_load_check_sparse lib None (shape0 lib data, rs))) (\<lambda>y_regr.
     bind (call (SC_ClassRegrSparseDataset data y_class y_regr)
                (sc_ClassRegrSparseDataset lib data y_class y_regr)) (\<lambda>dataset_te.
     bind (call (Torch_DataLoader dataset_te 4000 4 True)
                (torch_DataLoader lib dataset_te 4000 4 True)) (\<lambda>loader.
     bind (Model_load lib (ps_device ps)) (\<lambda>_.
     Model_predict lib loader))))))))))))"

text \<open>
  A method called on the model that \<^verbatim>\<open>_get_model\<close> returns. The model is an object
  shared with the registry: what the method changes in it is what the registry holds
  afterwards, also when the method raises.
\<close>

definition with_model ::
  "string \<Rightarrow> ('a, 'o) act \<Rightarrow> 'o PredictionSystem
     \<Rightarrow> (error + 'a) \<times> 'o PredictionSystem \<times> 'o event list" where
  "with_model model_name f ps =
     (case get_model ps model_name of
        Inl e \<Rightarrow> (Inl e, ps, [])
      | Inr model \<Rightarrow>
          (case f model of
             (r, model', es) \<Rightarrow> (r, ps\<lparr>ps_models := (ps_models ps)(model_name \<mapsto> model')\<rparr>, es)))"

text \<open>\<^verbatim>\<open>PredictionSystem.predict\<close>\<close>

definition PredictionSystem_predict ::
  "'o libs \<Rightarrow> string \<Rightarrow> path \<Rightarrow> 'o PredictionSystem
     \<Rightarrow> (error + 'o \<times> 'o) \<times> 'o PredictionSystem \<times> 'o event list" where
  "PredictionSystem_predict lib model_name smiles ps =
     with_model model_name (predict_steps lib ps smiles) ps"

section \<open>Sequences of calls on one deployment\<close>

text \<open>
  What a client can do with a constructed \<^verbatim>\<open>PredictionSystem\<close>: call \<^verbatim>\<open>predict\<close>,
  look a model up, and call the methods and properties of a registered model. The
  result of each call is dropped here (a caller may catch the exception and go on);
  the deployment it leaves and the delegated calls it made are kept.
\<close>

datatype 'o operation =
  Op_predict string path
| Op_get_model string
| Op_conf string
| Op_class_output_size string
| Op_regr_output_size string
| Op_fold_inputs string
| Op_input_transform string
| Op_load string string
| Op_model_predict string 'o

fun step ::
  "'o libs \<Rightarrow> 'o operation \<Rightarrow> 'o PredictionSystem \<Rightarrow> 'o PredictionSystem \<times> 'o event list" where
  "step lib (Op_predict name smiles) ps = snd (PredictionSystem_predict lib name smiles ps)"
| "step lib (Op_get_model name) ps = (ps, [])"
| "step lib (Op_conf name) ps = snd (with_model name (Model_conf lib) ps)"
| "step lib (Op_class_output_size name) ps = snd (with_model name (Model_class_output_size lib) ps)"
| "step lib (Op_regr_output_size name) ps = snd (with_model name (Model_regr_output_size lib) ps)"
| "step lib (Op_fold_inputs name) ps = snd (with_model name (Model_fold_inputs lib) ps)"
| "step lib (Op_input_transform name) ps = snd (with_model name (Model_input_transform lib) ps)"
| "step lib (Op_load name device) ps = snd (with_model name (Model_load lib device) ps)"
| "step lib (Op_model_predict name loader) ps = snd (with_model name (Model_predict lib loader) ps)"

fun run ::
  "'o libs \<Rightarrow> 'o operation list \<Rightarrow> 'o PredictionSystem \<Rightarrow> 'o PredictionSystem \<times> 'o event list" where
  "run lib [] ps = (ps, [])"
| "run lib (x # xs) ps =
     (case step lib x ps of (ps', es) \<Rightarrow>
        (case run lib xs ps' of (ps'', es') \<Rightarrow> (ps'', es @ es')))"

section \<open>Notions used to state the properties\<close>

text \<open>
  The configuration a model has: the stored one, or else what the library reads from
  the model's \<^verbatim>\<open>hyperparameters.json\<close>; and the delegated calls one access to it makes.
\<close>

definition configuration :: "'o libs \<Rightarrow> 'o Model \<Rightarrow> string + 'o conf" where
  "configuration lib m =
     (case m_conf m of
        Some c \<Rightarrow> Inr c
      | None \<Rightarrow> sc_load_results lib (path_str (m_conf_path m)) True)"

definition conf_events :: "'o Model \<Rightarrow> 'o event list" where
  "conf_events m =
     (case m_conf m of
        Some c \<Rightarrow> []
      | None \<Rightarrow> [SC_load_results (path_str (m_conf_path m)) True])"

text \<open>
  What a method may change in a model. \<open>conf_frame\<close>: the three paths stay, a stored
  configuration stays and a device that is set stays set. \<open>model_frame\<close>: moreover a
  stored network and its device stay.
\<close>

definition conf_frame :: "'o Model \<Rightarrow> 'o Model \<Rightarrow> bool" where
  "conf_frame m m' \<longleftrightarrow>
     m_path m' = m_path m \<and> m_conf_path m' = m_conf_path m \<and> m_model_path m' = m_model_path m \<and>
     (m_conf m \<noteq> None \<longrightarrow> m_conf m' = m_conf m) \<and>
     (m_device m \<noteq> None \<longrightarrow> m_device m' \<noteq> None)"

definition model_frame :: "'o Model \<Rightarrow> 'o Model \<Rightarrow> bool" where
  "model_frame m m' \<longleftrightarrow>
     conf_frame m m' \<and>
     (m_model m \<noteq> None \<longrightarrow> m_model m' = m_model m \<and> m_device m' = m_device m)"

definition registry_frame :: "'o PredictionSystem \<Rightarrow> 'o PredictionSystem \<Rightarrow> bool" where
  "registry_frame ps ps' \<longleftrightarrow>
     ps_device ps' = ps_device ps \<and>
     ps_tuner_encryption_key ps' = ps_tuner_encryption_key ps \<and>
     ps_tuner_configuration_parameters ps' = ps_tuner_configuration_parameters ps \<and>
     dom (ps_models ps') = dom (ps_models ps) \<and>
     (\<forall>name m m'. ps_models ps name = Some m \<longrightarrow> ps_models ps' name = Some m' \<longrightarrow> model_frame m m')"

text \<open>
  Three ways to speak about every run of a method: the relation between the model
  before and after, the exceptions it can raise, and the delegated calls it can make.
\<close>

definition pres :: "('o Model \<Rightarrow> 'o Model \<Rightarrow> bool) \<Rightarrow> ('a, 'o) act \<Rightarrow> bool" where
  "pres R f \<longleftrightarrow> (\<forall>m. R m (fst (snd (f m))))"

definition raises_only :: "(error \<Rightarrow> bool) \<Rightarrow> ('a, 'o) act \<Rightarrow> bool" where
  "raises_only E f \<longleftrightarrow> (\<forall>m e. fst (f m) = Inl e \<longrightarrow> E e)"

definition emits :: "('o event \<Rightarrow> bool) \<Rightarrow> ('a, 'o) act \<Rightarrow> bool" where
  "emits P f \<longleftrightarrow> (\<forall>m. \<forall>ev \<in> set (snd (snd (f m))). P ev)"

fun propagated :: "error \<Rightarrow> bool" where
  "propagated (Propagated _) = True"
| "propagated _ = False"

fun attribute_or_propagated :: "error \<Rightarrow> bool" where
  "attribute_or_propagated (AttributeError _) = True"
| "attribute_or_propagated (Propagated _) = True"
| "attribute_or_propagated _ = False"

fun lookup_miss_or_propagated :: "error \<Rightarrow> bool" where
  "lookup_miss_or_propagated (ModelUnknownError _) = True"
| "lookup_miss_or_propagated (Propagated _) = True"
| "lookup_miss_or_propagated _ = False"

fun is_fold :: "'o event \<Rightarrow> bool" where
  "is_fold (SC_fold_transform_inputs _ _ _) = True"
| "is_fold _ = False"

text \<open>
  The four stages of a prediction, numbered in the order of the pipeline: reading the
  structure file, the tuner preparation, the fold/transform, the inference. \<open>stages\<close>
  lists the stages of the calls made, in the order they were made. \<open>runs_stages k k'\<close>:
  the stage calls of a method are the stages from \<open>k\<close> on, in order and each once, up to
  some stage below \<open>k'\<close> where it stopped, and all of them when the method returns.
\<close>

fun pipeline_stage :: "'o event \<Rightarrow> nat option" where
  "pipeline_stage (MT_read_input_file _) = Some 0"
| "pipeline_stage (MT_do_prepare_prediction_online _ _) = Some 1"
| "pipeline_stage (SC_fold_transform_inputs _ _ _) = Some 2"
| "pipeline_stage (SC_predict _ _ _ _ _) = Some 3"
| "pipeline_stage _ = None"

definition stages :: "'o event list \<Rightarrow> nat list" where
  "stages es = List.map_filter pipeline_stage es"


text \<open>An entry of the model folder that holds both files of a model.\<close>

definition well_formed_entry :: "os \<Rightarrow> path \<Rightarrow> string \<Rightarrow> bool" where
  "well_formed_entry fs folder d \<longleftrightarrow>
     os_path_isfile fs (joinpath (joinpath folder d) ''hyperparameters.json'') \<and>
     os_path_isfile fs (joinpath (joinpath folder d) ''model.pth'')"


section \<open>A small deployment\<close>

text \<open>
  A concrete file system, library and deployment, on which the theorems below are
  instantiated: two well-formed model folders \<^verbatim>\<open>models/m1\<close> and \<^verbatim>\<open>models/m2\<close>, a library
  whose matrices are known by their shape only, and an input file of two samples.
  \<open>ex_os_broken\<close> is the same file system without \<^verbatim>\<open>models/m2/model.pth\<close>.
\<close>

datatype pyobj =
  PyInt nat
| PyStr string
| Matrix nat nat
| Net string
| StateDict
| Dataset pyobj pyobj pyobj
| Loader pyobj

definition ex_conf :: "pyobj conf" where
  "ex_conf = [''fold_inputs'' \<mapsto> PyInt 4, ''input_transform'' \<mapsto> PyStr ''binarize'',
              ''class_output_size'' \<mapsto> PyInt 3, ''regr_output_size'' \<mapsto> PyInt 1]"

definition ex_shape :: "pyobj \<Rightarrow> pyobj \<times> pyobj" where
  "ex_shape x = (case x of Matrix r c \<Rightarrow> (PyInt r, PyInt c) | _ \<Rightarrow> (PyInt 0, PyInt 0))"

definition ex_lib :: "pyobj libs" where
  "ex_lib = \<lparr>
     mt_read_input_file = (\<lambda>f. if f = ''smiles.csv'' then Inr (Matrix 2 1) else Inl ''No such file''),
     mt_do_prepare_prediction_online =
       (\<lambda>args df. case df of Matrix r c \<Rightarrow> Inr (Matrix r 8) | _ \<Rightarrow> Inl ''not a data frame''),
     sc_load_results = (\<lambda>f two_heads. Inr ex_conf),
     sc_SparseFFN = (\<lambda>c. Inr (Net ''initial'')),
     sc_fold_transform_inputs =
       (\<lambda>x folding_size transform.
          case (x, folding_size) of (Matrix r c, PyInt k) \<Rightarrow> Inr (Matrix r k) | _ \<Rightarrow> Inl ''bad input''),
     sc_load_check_sparse =
       (\<lambda>f sh. case sh of (PyInt r, PyInt c) \<Rightarrow> Inr (Matrix r c) | _ \<Rightarrow> Inl ''bad shape''),
     sc_ClassRegrSparseDataset = (\<lambda>x yc yr. Inr (Dataset x yc yr)),
     sc_predict =
       (\<lambda>net loader dev dropout progress.
          case loader of
            Loader (Dataset x (Matrix r c) (Matrix r' c')) \<Rightarrow> Inr (Matrix r c, Matrix r' c')
          | _ \<Rightarrow> Inl ''bad loader''),
     torch_to = (\<lambda>net dev. Inr net),
     torch_device = (\<lambda>dev. Inr (PyStr dev)),
     torch_load = (\<lambda>f dev. Inr StateDict),
     torch_load_state_dict = (\<lambda>net state. Inr (Net ''trained'')),
     torch_DataLoader = (\<lambda>ds batch_size num_workers pin_memory. Inr (Loader ds)),
     shape0 = (\<lambda>x. fst (ex_shape x))\<rparr>"

definition ex_os :: os where
  "ex_os = \<lparr>
     os_path_isdir = (\<lambda>p. p = [''models'']),
     os_path_isfile = (\<lambda>p. p \<in> set [[''models'', ''m1'', ''hyperparameters.json''],
                                   [''models'', ''m1'', ''model.pth''],
                                   [''models'', ''m2'', ''hyperparameters.json''],
                                   [''models'', ''m2'', ''model.pth'']]),
     os_listdir = (\<lambda>p. if p = [''models''] then Inr [''m1'', ''m2'']
                       else Inl ''No such file or directory'')\<rparr>"

definition ex_os_broken :: os where
  "ex_os_broken = ex_os\<lparr>os_path_isfile :=
     (\<lambda>p. p \<in> set [[''models'', ''m1'', ''hyperparameters.json''],
                   [''models'', ''m1'', ''model.pth''],
                   [''models'', ''m2'', ''hyperparameters.json'']])\<rparr>"

definition ex_model :: "string \<Rightarrow> pyobj Model" where
  "ex_model name = \<lparr>m_path = [''models'', name],
     m_conf_path = [''models'', name, ''hyperparameters.json''],
     m_model_path = [''models'', name, ''model.pth''],
     m_conf = None, m_model = None, m_device = None\<rparr>"

definition ex_loaded :: "string \<Rightarrow> pyobj Model" where
  "ex_loaded name = (ex_model name)\<lparr>m_conf := Some ex_conf, m_model := Some (Net ''trained''),
     m_device := Some ''cpu''\<rparr>"

definition ex_ps :: "pyobj PredictionSystem" where
  "ex_ps = \<lparr>ps_device = ''cpu'', ps_tuner_encryption_key = [''key.json''],
     ps_tuner_configuration_parameters = [''parameters.json''],
     ps_models = [''m1'' \<mapsto> ex_model ''m1'', ''m2'' \<mapsto> ex_model ''m2'']\<rparr>"

definition ex_args :: namespace where
  "ex_args = [''structure_file'' \<mapsto> AStr ''smiles.csv'', ''config_file'' \<mapsto> AStr ''parameters.json'',
     ''key_file'' \<mapsto> AStr ''key.json'', ''run_name'' \<mapsto> AStr ''mms'', ''number_cpu'' \<mapsto> AInt 1,
     ''non_interactive'' \<mapsto> ABool True, ''ref_hash'' \<mapsto> ANone]"

definition ex_events :: "pyobj event list" where
  "ex_events =
     [MT_read_input_file ''smiles.csv'',
      MT_do_prepare_prediction_online ex_args (Matrix 2 1),
      SC_load_results ''models/m1/hyperparameters.json'' True,
      SC_fold_transform_inputs (Matrix 2 8) (PyInt 4) (PyStr ''binarize''),
      SC_load_check_sparse None (PyInt 2, PyInt 3),
      SC_load_check_sparse None (PyInt 2, PyInt 1),
      SC_ClassRegrSparseDataset (Matrix 2 4) (Matrix 2 3) (Matrix 2 1),
      Torch_DataLoader (Dataset (Matrix 2 4) (Matrix 2 3) (Matrix 2 1)) 4000 4 True,
      SC_SparseFFN ex_conf,
      Torch_to (Net ''initial'') ''cpu'',
      Torch_device ''cpu'',
      Torch_load [''models'', ''m1'', ''model.pth''] (PyStr ''cpu''),
      Torch_load_state_dict (Net ''initial'') StateDict,
      SC_predict (Net ''trained'') (Loader (Dataset (Matrix 2 4) (Matrix 2 3) (Matrix 2 1))) ''cpu'' 0 False]"

text \<open>The deployment after one prediction with \<^verbatim>\<open>m1\<close>, and the calls of a second one.\<close>

definition ex_ps_warm :: "pyobj PredictionSystem" where
  "ex_ps_warm = ex_ps\<lparr>ps_models := (ps_models ex_ps)(''m1'' \<mapsto> ex_loaded ''m1'')\<rparr>"

definition ex_events_warm :: "pyobj event list" where
  "ex_events_warm =
     [MT_read_input_file ''smiles.csv'',
      MT_do_prepare_prediction_online ex_args (Matrix 2 1),
      SC_fold_transform_inputs (Matrix 2 8) (PyInt 4) (PyStr ''binarize''),
      SC_load_check_sparse None (PyInt 2, PyInt 3),
      SC_load_check_sparse None (PyInt 2, PyInt 1),
      SC_ClassRegrSparseDataset (Matrix 2 4) (Matrix 2 3) (Matrix 2 1),
      Torch_DataLoader (Dataset (Matrix 2 4) (Matrix 2 3) (Matrix 2 1)) 4000 4 True,
      SC_predict (Net ''trained'') (Loader (Dataset (Matrix 2 4) (Matrix 2 3) (Matrix 2 1))) ''cpu'' 0 False]"





section \<open>Lemmas about the methods\<close>

subsection \<open>The result of the basic steps\<close>

lemma ret_simp [simp]: "ret a m = (Inr a, m, [])" by (simp add: ret_def)

lemma throw_simp [simp]: "throw e m = (Inl e, m, [])" by (simp add: throw_def)

lemma assign_simp [simp]: "assign f m = (Inr (), f m, [])" by (simp add: assign_def)

lemma call_Inr_iff [simp]:
  "call ev res m = (Inr v, m', es) \<longleftrightarrow> res = Inr v \<and> m' = m \<and> es = [ev]"
  by (auto simp: call_def split: sum.splits)

lemma call_Inl_iff [simp]:
  "call ev res m = (Inl e, m', es) \<longleftrightarrow> (\<exists>msg. res = Inl msg \<and> e = Propagated msg) \<and> m' = m \<and> es = [ev]"
  by (auto simp: call_def split: sum.splits)

lemma bind_Inr_iff:
  "bind f g m = (Inr b, m'', es) \<longleftrightarrow>
     (\<exists>a m' es1 es2. f m = (Inr a, m', es1) \<and> g a m' = (Inr b, m'', es2) \<and> es = es1 @ es2)"
  by (auto simp: bind_def split: sum.splits prod.splits)

lemma bind_Inl_iff:
  "bind f g m = (Inl e, m'', es) \<longleftrightarrow>
     f m = (Inl e, m'', es) \<or>
     (\<exists>a m' es1 es2. f m = (Inr a, m', es1) \<and> g a m' = (Inl e, m'', es2) \<and> es = es1 @ es2)"
  by (auto simp: bind_def split: sum.splits prod.splits)

lemma read_model_Inr [simp]:
  "read_model m = (Inr n, m', es) \<longleftrightarrow> m_model m = Some n \<and> m' = m \<and> es = []"
  by (auto simp: read_model_def split: option.splits)

lemma read_device_Inr [simp]:
  "read_device m = (Inr d, m', es) \<longleftrightarrow> m_device m = Some d \<and> m' = m \<and> es = []"
  by (auto simp: read_device_def split: option.splits)

lemma read_model_path_Inr [simp]:
  "read_model_path m = (Inr p, m', es) \<longleftrightarrow> p = m_model_path m \<and> m' = m \<and> es = []"
  by (auto simp: read_model_path_def)

lemma getattr_Inr [simp]:
  "getattr c name m = (Inr v, m', es) \<longleftrightarrow> c name = Some v \<and> m' = m \<and> es = []"
  by (auto simp: getattr_def split: option.splits)

lemma Model_conf_Inr:
  "Model_conf lib m = (Inr c, m', es) \<longleftrightarrow>
     (m_conf m = Some c \<and> m' = m \<and> es = []) \<or>
     (m_conf m = None \<and> sc_load_results lib (path_str (m_conf_path m)) True = Inr c \<and>
      m' = m\<lparr>m_conf := Some c\<rparr> \<and> es = [SC_load_results (path_str (m_conf_path m)) True])"
  by (auto simp: Model_conf_def bind_Inr_iff split: option.splits)

subsection \<open>When a method returns\<close>

lemma Model_conf_Inr':
  "Model_conf lib m = (Inr c, m', es) \<longleftrightarrow>
     configuration lib m = Inr c \<and> m' = m\<lparr>m_conf := Some c\<rparr> \<and> es = conf_events m"
  by (cases "m_conf m") (auto simp: Model_conf_Inr configuration_def conf_events_def)

lemma getters_Inr:
  "Model_fold_inputs lib m = (Inr v, m', es) \<longleftrightarrow>
     (\<exists>c. configuration lib m = Inr c \<and> c ''fold_inputs'' = Some v \<and> m' = m\<lparr>m_conf := Some c\<rparr> \<and> es = conf_events m)"
  "Model_input_transform lib m = (Inr v, m', es) \<longleftrightarrow>
     (\<exists>c. configuration lib m = Inr c \<and> c ''input_transform'' = Some v \<and> m' = m\<lparr>m_conf := Some c\<rparr> \<and> es = conf_events m)"
  "Model_class_output_size lib m = (Inr v, m', es) \<longleftrightarrow>
     (\<exists>c. configuration lib m = Inr c \<and> c ''class_output_size'' = Some v \<and> m' = m\<lparr>m_conf := Some c\<rparr> \<and> es = conf_events m)"
  "Model_regr_output_size lib m = (Inr v, m', es) \<longleftrightarrow>
     (\<exists>c. configuration lib m = Inr c \<and> c ''regr_output_size'' = Some v \<and> m' = m\<lparr>m_conf := Some c\<rparr> \<and> es = conf_events m)"
  by (auto simp: Model_fold_inputs_def Model_input_transform_def Model_class_output_size_def
      Model_regr_output_size_def bind_Inr_iff Model_conf_Inr')

lemma configuration_stored [simp]: "configuration lib (m\<lparr>m_conf := Some c\<rparr>) = Inr c"
  by (simp add: configuration_def)

lemma conf_events_stored [simp]: "conf_events (m\<lparr>m_conf := Some c\<rparr>) = []"
  by (simp add: conf_events_def)

lemma configuration_upd [simp]:
  "configuration lib (m\<lparr>m_device := dv\<rparr>) = configuration lib m"
  "configuration lib (m\<lparr>m_model := nv\<rparr>) = configuration lib m"
  by (simp_all add: configuration_def split: option.splits)

lemma conf_events_upd [simp]:
  "conf_events (m\<lparr>m_device := dv\<rparr>) = conf_events m"
  "conf_events (m\<lparr>m_model := nv\<rparr>) = conf_events m"
  by (simp_all add: conf_events_def split: option.splits)

lemma load_steps_Inr':
  "load_steps lib device m = (Inr u, m', es) \<longleftrightarrow>
     (\<exists>c net0 net d state n'.
        configuration lib m = Inr c \<and>
        sc_SparseFFN lib c = Inr net0 \<and> torch_to lib net0 device = Inr net \<and>
        torch_device lib device = Inr d \<and> torch_load lib (m_model_path m) d = Inr state \<and>
        torch_load_state_dict lib net state = Inr n' \<and>
        m' = m\<lparr>m_conf := Some c, m_device := Some device, m_model := Some n'\<rparr> \<and>
        es = conf_events m @ [SC_SparseFFN c, Torch_to net0 device, Torch_device device,
              Torch_load (m_model_path m) d, Torch_load_state_dict net state])"
  by (auto simp: load_steps_def bind_Inr_iff Model_conf_Inr')

lemma Model_predict_Inr:
  "Model_predict lib loader m = (Inr p, m', es) \<longleftrightarrow>
     (\<exists>n dev. m_model m = Some n \<and> m_device m = Some dev \<and>
        sc_predict lib n loader dev 0 False = Inr p \<and> m' = m \<and> es = [SC_predict n loader dev 0 False])"
  by (auto simp: Model_predict_def bind_Inr_iff)

lemma Model_load_Inr:
  "Model_load lib device m = (Inr u, m', es) \<longleftrightarrow>
     (case m_model m of
        Some n \<Rightarrow> m' = m \<and> es = []
      | None \<Rightarrow> load_steps lib device m = (Inr u, m', es))"
  by (auto simp: Model_load_def split: option.splits)

subsection \<open>What a method leaves unchanged\<close>

lemma conf_frame_refl [simp]: "conf_frame m m" by (simp add: conf_frame_def)

lemma model_frame_refl [simp]: "model_frame m m" by (simp add: model_frame_def)

lemma conf_frame_trans: "conf_frame a b \<Longrightarrow> conf_frame b c \<Longrightarrow> conf_frame a c"
  by (auto simp: conf_frame_def)

lemma model_frame_trans: "model_frame a b \<Longrightarrow> model_frame b c \<Longrightarrow> model_frame a c"
  by (auto simp: model_frame_def conf_frame_def)

lemma pres_bind:
  assumes tr: "\<And>a b c. R a b \<Longrightarrow> R b c \<Longrightarrow> R a c"
    and f: "pres R f" and g: "\<And>a. pres R (g a)"
  shows "pres R (bind f g)"
proof -
  have "R m (fst (snd (bind f g m)))" for m
  proof (cases "f m")
    case (fields r m' es)
    have 1: "R m m'" using f fields by (auto simp: pres_def dest: spec [of _ m])
    show ?thesis
    proof (cases r)
      case (Inl e)
      then show ?thesis using fields 1 by (simp add: bind_def)
    next
      case (Inr a)
      have "R m' (fst (snd (g a m')))" using g [of a] by (simp add: pres_def)
      then show ?thesis using fields Inr 1 tr by (auto simp: bind_def split: prod.splits)
    qed
  qed
  then show ?thesis by (simp add: pres_def)
qed

lemmas pres_bind_conf = pres_bind [where R = conf_frame, OF conf_frame_trans]

lemmas pres_bind_model = pres_bind [where R = model_frame, OF model_frame_trans]

lemma pres_basic [simp]:
  "pres conf_frame (ret a)" "pres conf_frame (throw e)" "pres conf_frame (call ev res)"
  "pres conf_frame read_model" "pres conf_frame read_device" "pres conf_frame read_model_path"
  "pres conf_frame (getattr c name)"
  "pres model_frame (ret a)" "pres model_frame (throw e)" "pres model_frame (call ev res)"
  "pres model_frame read_model" "pres model_frame read_device" "pres model_frame read_model_path"
  "pres model_frame (getattr c name)"
  by (auto simp: pres_def call_def read_model_def read_device_def read_model_path_def getattr_def
      split: sum.splits option.splits)

lemma pres_assign_conf [simp]:
  "pres conf_frame (assign (\<lambda>m. m\<lparr>m_device := Some d\<rparr>))"
  "pres conf_frame (assign (\<lambda>m. m\<lparr>m_model := n\<rparr>))"
  by (auto simp: pres_def conf_frame_def)

lemma Model_conf_frame: "model_frame m (fst (snd (Model_conf lib m)))"
  by (auto simp: Model_conf_def bind_def call_def model_frame_def conf_frame_def
      split: option.splits sum.splits)

lemma pres_Model_conf [simp]: "pres model_frame (Model_conf lib)" "pres conf_frame (Model_conf lib)"
  using Model_conf_frame by (auto simp: pres_def model_frame_def)

lemma pres_getters [simp]:
  "pres model_frame (Model_fold_inputs lib)" "pres model_frame (Model_input_transform lib)"
  "pres model_frame (Model_class_output_size lib)" "pres model_frame (Model_regr_output_size lib)"
  unfolding Model_fold_inputs_def Model_input_transform_def Model_class_output_size_def
    Model_regr_output_size_def
  by (auto intro!: pres_bind_model)

lemma pres_load_steps: "pres conf_frame (load_steps lib device)"
  unfolding load_steps_def
  by (intro pres_bind_conf pres_basic pres_Model_conf pres_assign_conf)

lemma pres_Model_load [simp]: "pres model_frame (Model_load lib device)"
  using pres_load_steps [of lib device]
  by (auto simp: pres_def Model_load_def model_frame_def split: option.splits)

lemma pres_Model_predict [simp]: "pres model_frame (Model_predict lib loader)"
  unfolding Model_predict_def
  by (intro pres_bind_model pres_basic)

lemma pres_predict_steps [simp]: "pres model_frame (predict_steps lib ps smiles)"
  unfolding predict_steps_def
  by (intro pres_bind_model pres_basic pres_getters pres_Model_load pres_Model_predict)

subsection \<open>What a method raises and which calls it makes\<close>

lemma raises_only_bind:
  assumes "raises_only E f" and "\<And>a. raises_only E (g a)"
  shows "raises_only E (bind f g)"
  using assms
  apply (clarsimp simp: raises_only_def bind_def split: prod.splits sum.splits)
  apply (metis fst_conv)
  done

lemma raises_only_basic [simp]:
  "raises_only E (ret a)" "raises_only E (assign u)" "raises_only E read_model_path"
  "raises_only attribute_or_propagated (call ev res)"
  "raises_only attribute_or_propagated read_model"
  "raises_only attribute_or_propagated read_device"
  "raises_only attribute_or_propagated (getattr c name)"
  by (auto simp: raises_only_def call_def read_model_def read_device_def read_model_path_def
      getattr_def split: sum.splits option.splits)

lemma raises_only_Model_conf [simp]: "raises_only attribute_or_propagated (Model_conf lib)"
  by (auto simp: raises_only_def Model_conf_def bind_def call_def split: option.splits sum.splits)

lemma raises_only_getters [simp]:
  "raises_only attribute_or_propagated (Model_fold_inputs lib)"
  "raises_only attribute_or_propagated (Model_input_transform lib)"
  "raises_only attribute_or_propagated (Model_class_output_size lib)"
  "raises_only attribute_or_propagated (Model_regr_output_size lib)"
  unfolding Model_fold_inputs_def Model_input_transform_def Model_class_output_size_def
    Model_regr_output_size_def
  by (auto intro!: raises_only_bind)

lemma raises_only_load_steps: "raises_only attribute_or_propagated (load_steps lib device)"
  unfolding load_steps_def
  by (intro raises_only_bind raises_only_basic raises_only_Model_conf)

lemma raises_only_Model_load [simp]: "raises_only attribute_or_propagated (Model_load lib device)"
  using raises_only_load_steps [of lib device]
  by (auto simp: raises_only_def Model_load_def split: option.splits)

lemma raises_only_Model_predict [simp]: "raises_only attribute_or_propagated (Model_predict lib loader)"
  unfolding Model_predict_def
  by (intro raises_only_bind raises_only_basic)

lemma raises_only_predict_steps: "raises_only attribute_or_propagated (predict_steps lib ps smiles)"
  unfolding predict_steps_def
  by (intro raises_only_bind raises_only_basic raises_only_getters raises_only_Model_load
      raises_only_Model_predict)

lemma emits_bind:
  assumes "emits P f" and "\<And>a. emits P (g a)"
  shows "emits P (bind f g)"
proof -
  have "P ev" if "ev \<in> set (snd (snd (bind f g m)))" for m ev
  proof (cases "f m")
    case (fields r m' es)
    have 1: "\<forall>x \<in> set es. P x" using assms(1) fields by (auto simp: emits_def dest: spec [of _ m])
    show ?thesis
    proof (cases r)
      case (Inl e)
      then show ?thesis using fields 1 that by (simp add: bind_def)
    next
      case (Inr a)
      have "\<forall>x \<in> set (snd (snd (g a m'))). P x" using assms(2) [of a] by (simp add: emits_def)
      then show ?thesis using fields Inr 1 that by (auto simp: bind_def split: prod.splits)
    qed
  qed
  then show ?thesis by (auto simp: emits_def)
qed

lemma emits_silent [simp]:
  "emits P (ret a)" "emits P (throw e)" "emits P (assign u)" "emits P read_model"
  "emits P read_device" "emits P read_model_path" "emits P (getattr c name)"
  by (auto simp: emits_def read_model_def read_device_def read_model_path_def getattr_def
      split: option.splits)

lemma emits_call: "P ev \<Longrightarrow> emits P (call ev res)"
  by (auto simp: emits_def call_def split: sum.splits)

lemma emits_Model_conf: "(\<And>p b. P (SC_load_results p b)) \<Longrightarrow> emits P (Model_conf lib)"
  by (auto simp: emits_def Model_conf_def bind_def call_def split: option.splits sum.splits)

lemma emits_getters:
  assumes "\<And>p b. P (SC_load_results p b)"
  shows "emits P (Model_fold_inputs lib)" "emits P (Model_input_transform lib)"
    "emits P (Model_class_output_size lib)" "emits P (Model_regr_output_size lib)"
  unfolding Model_fold_inputs_def Model_input_transform_def Model_class_output_size_def
    Model_regr_output_size_def
  using assms by (auto intro!: emits_bind emits_Model_conf)

lemma emits_D: "emits P f \<Longrightarrow> f m = (r, m', es) \<Longrightarrow> ev \<in> set es \<Longrightarrow> P ev"
  by (auto simp: emits_def dest: spec [of _ m])

lemma bindE:
  assumes "bind f g m = (r, m'', es)"
  obtains (fails) e where "f m = (Inl e, m'', es)" "r = Inl e"
  | (goes) a m' es1 es2 where "f m = (Inr a, m', es1)" "g a m' = (r, m'', es2)" "es = es1 @ es2"
  using assms by (auto simp: bind_def split: prod.splits sum.splits)

subsection \<open>The registry\<close>

lemma registry_frame_refl [simp]: "registry_frame ps ps"
  by (simp add: registry_frame_def)

lemma registry_frame_trans:
  assumes "registry_frame a b" "registry_frame b c"
  shows "registry_frame a c"
proof -
  have "model_frame m m''" if "ps_models a name = Some m" "ps_models c name = Some m''" for name m m''
  proof -
    from that assms have "name \<in> dom (ps_models b)" by (auto simp: registry_frame_def)
    then obtain m' where "ps_models b name = Some m'" by auto
    with that assms have "model_frame m m'" "model_frame m' m''"
      by (auto simp: registry_frame_def)
    then show ?thesis by (rule model_frame_trans)
  qed
  with assms show ?thesis by (auto simp: registry_frame_def)
qed

lemma with_model_unknown:
  "ps_models ps name = None \<Longrightarrow>
   with_model name f ps = (Inl (ModelUnknownError ''Requested model does not exist''), ps, [])"
  by (simp add: with_model_def get_model_def)

lemma with_model_known:
  "ps_models ps name = Some m \<Longrightarrow>
   with_model name f ps =
     (case f m of (r, m', es) \<Rightarrow> (r, ps\<lparr>ps_models := (ps_models ps)(name \<mapsto> m')\<rparr>, es))"
  by (simp add: with_model_def get_model_def)

lemma with_model_frame:
  assumes "pres model_frame f"
  shows "registry_frame ps (fst (snd (with_model name f ps)))"
proof (cases "ps_models ps name")
  case None
  then show ?thesis by (simp add: with_model_unknown)
next
  case (Some m)
  have "model_frame m (fst (snd (f m)))" using assms by (simp add: pres_def)
  with Some show ?thesis
    by (auto simp: with_model_known registry_frame_def split: prod.splits)
qed

lemma step_frame: "registry_frame ps (fst (step lib x ps))"
  by (cases x) (simp_all add: PredictionSystem_predict_def with_model_frame)

lemma run_frame: "registry_frame ps (fst (run lib xs ps))"
proof (induction xs arbitrary: ps)
  case Nil
  then show ?case by simp
next
  case (Cons x xs)
  have "registry_frame ps (fst (step lib x ps))" by (rule step_frame)
  moreover have "registry_frame (fst (step lib x ps)) (fst (run lib xs (fst (step lib x ps))))"
    by (rule Cons.IH)
  ultimately show ?case
    by (auto simp: split: prod.splits intro: registry_frame_trans)
qed

lemma Model_init_Inr:
  "Model_init fs p = Inr m \<longleftrightarrow>
     os_path_isfile fs (joinpath p ''hyperparameters.json'') \<and>
     os_path_isfile fs (joinpath p ''model.pth'') \<and>
     m = \<lparr>m_path = p, m_conf_path = joinpath p ''hyperparameters.json'',
          m_model_path = joinpath p ''model.pth'',
          m_conf = None, m_model = None, m_device = None\<rparr>"
  by (auto simp: Model_init_def Let_def)

lemma build_models_Inr:
  "build_models fs folder names acc = Inr ms \<Longrightarrow>
     dom ms = dom acc \<union> set names \<and>
     (\<forall>d \<in> set names. Model_init fs (joinpath folder d) = Inr (the (ms d))) \<and>
     (\<forall>d. d \<notin> set names \<longrightarrow> ms d = acc d)"
proof (induction names arbitrary: acc)
  case Nil
  then show ?case by simp
next
  case (Cons d ds)
  from Cons.prems obtain m where m: "Model_init fs (joinpath folder d) = Inr m"
    and rest: "build_models fs folder ds (acc(d \<mapsto> m)) = Inr ms"
    by (auto split: sum.splits)
  note ih = Cons.IH [OF rest]
  have "Model_init fs (joinpath folder d) = Inr (the (ms d))"
  proof (cases "d \<in> set ds")
    case True
    then show ?thesis using ih by auto
  next
    case False
    then have "ms d = Some m" using ih by auto
    then show ?thesis using m by simp
  qed
  with ih show ?case by auto
qed

lemma build_models_Inl:
  "\<exists>d \<in> set names. \<not> well_formed_entry fs folder d \<Longrightarrow>
   \<exists>p. build_models fs folder names acc = Inl (FileNotFoundError p)"
proof (induction names arbitrary: acc)
  case Nil
  then show ?case by simp
next
  case (Cons d ds)
  show ?case
  proof (cases "well_formed_entry fs folder d")
    case False
    then show ?thesis by (auto simp: Model_init_def Let_def well_formed_entry_def)
  next
    case True
    with Cons.prems have "\<exists>d \<in> set ds. \<not> well_formed_entry fs folder d" by auto
    from Cons.IH [OF this] True show ?thesis
      by (auto simp: Model_init_def Let_def well_formed_entry_def)
  qed
qed

lemma build_models_errors:
  "build_models fs folder names acc = Inl e \<Longrightarrow> \<exists>p. e = FileNotFoundError p"
  by (induction names arbitrary: acc) (auto simp: Model_init_def Let_def split: sum.splits if_splits)

lemma init_Inr:
  assumes "PredictionSystem_init fs folder key params device = Inr ps"
  shows "\<exists>names. os_path_isdir fs folder \<and> os_listdir fs folder = Inr names \<and>
           build_models fs folder names Map.empty = Inr (ps_models ps) \<and>
           ps_device ps = device \<and> ps_tuner_encryption_key ps = key \<and>
           ps_tuner_configuration_parameters ps = params"
  using assms by (auto simp: PredictionSystem_init_def split: if_splits sum.splits)

subsection \<open>The steps of a prediction\<close>

lemma bind_call_events:
  "snd (snd (bind (call ev res) g m)) =
     ev # (case res of Inl msg \<Rightarrow> [] | Inr v \<Rightarrow> snd (snd (g v m)))"
  by (auto simp: bind_def call_def split: sum.splits prod.splits)

lemma predict_steps_first:
  "\<exists>rest. snd (snd (predict_steps lib ps smiles m)) = MT_read_input_file (path_str smiles) # rest"
  unfolding predict_steps_def by (subst bind_call_events) blast



subsection \<open>Errors of a prediction and the registry after construction\<close>

lemma predict_raises: "fst (PredictionSystem_predict lib name smiles ps) = Inl e \<Longrightarrow>
   ps_models ps name = Some m \<Longrightarrow> attribute_or_propagated e"
proof -
  assume e: "fst (PredictionSystem_predict lib name smiles ps) = Inl e"
    and m: "ps_models ps name = Some m"
  from e m have "fst (predict_steps lib ps smiles m) = Inl e"
    by (simp add: PredictionSystem_predict_def with_model_known split: prod.splits)
  with raises_only_predict_steps [of lib ps smiles] show ?thesis
    by (simp add: raises_only_def)
qed

lemma init_dom:
  assumes "PredictionSystem_init fs folder key params device = Inr ps"
    and "os_listdir fs folder = Inr names"
  shows "dom (ps_models ps) = set names"
  using init_Inr [OF assms(1)] assms(2) by (auto dest!: build_models_Inr)

subsection \<open>A malformed entry stops the construction\<close>

lemma build_models_missing:
  "\<exists>d \<in> set names. \<not> well_formed_entry fs folder d \<Longrightarrow>
   \<exists>d \<in> set names. \<exists>p. build_models fs folder names acc = Inl (FileNotFoundError p) \<and>
      \<not> os_path_isfile fs p \<and>
      (p = joinpath (joinpath folder d) ''hyperparameters.json'' \<or>
       p = joinpath (joinpath folder d) ''model.pth'')"
proof (induction names arbitrary: acc)
  case Nil
  then show ?case by simp
next
  case (Cons d ds)
  show ?case
  proof (cases "well_formed_entry fs folder d")
    case False
    then show ?thesis by (auto simp: Model_init_def Let_def well_formed_entry_def)
  next
    case True
    with Cons.prems have "\<exists>d \<in> set ds. \<not> well_formed_entry fs folder d" by auto
    from Cons.IH [OF this] True show ?thesis
      by (auto simp: Model_init_def Let_def well_formed_entry_def)
  qed
qed

subsection \<open>Errors of the single operations\<close>

lemma Model_conf_Inl:
  "Model_conf lib m = (Inl e, m', es) \<longleftrightarrow>
     m_conf m = None \<and>
     (\<exists>msg. sc_load_results lib (path_str (m_conf_path m)) True = Inl msg \<and> e = Propagated msg) \<and>
     m' = m \<and> es = [SC_load_results (path_str (m_conf_path m)) True]"
  by (auto simp: Model_conf_def bind_Inl_iff split: option.splits)

lemma Model_conf_propagated: "fst (Model_conf lib m) = Inl e \<Longrightarrow> propagated e"
  by (cases "Model_conf lib m") (auto simp: Model_conf_Inl)

lemma load_steps_propagated: "fst (load_steps lib device m) = Inl e \<Longrightarrow> propagated e"
  by (cases "load_steps lib device m")
    (auto simp: load_steps_def bind_Inl_iff bind_Inr_iff Model_conf_Inl Model_conf_Inr'
      read_device_def read_model_def read_model_path_def)

lemma Model_load_propagated: "fst (Model_load lib device m) = Inl e \<Longrightarrow> propagated e"
  using load_steps_propagated [of lib device m e]
  by (auto simp: Model_load_def split: option.splits)

lemma raises_onlyD: "raises_only E f \<Longrightarrow> fst (f m) = Inl e \<Longrightarrow> E e"
  by (simp add: raises_only_def)

lemma init_errors:
  "(PredictionSystem_init fs folder key params device :: error + 'o PredictionSystem) = Inl e \<Longrightarrow>
     (\<exists>msg. e = NotADirectoryError msg) \<or> (\<exists>p. e = FileNotFoundError p) \<or> propagated e"
  by (auto simp: PredictionSystem_init_def split: if_splits sum.splits dest: build_models_errors)

subsection \<open>The delegated calls of a prediction\<close>

lemma emits_load_steps:
  assumes "\<And>p b. P (SC_load_results p b)" "\<And>c. P (SC_SparseFFN c)" "\<And>n d. P (Torch_to n d)"
    "\<And>d. P (Torch_device d)" "\<And>p d. P (Torch_load p d)" "\<And>n s. P (Torch_load_state_dict n s)"
  shows "emits P (load_steps lib device)"
  unfolding load_steps_def
  by (intro emits_bind emits_silent emits_call emits_Model_conf assms)

lemma emits_Model_load:
  assumes "\<And>p b. P (SC_load_results p b)" "\<And>c. P (SC_SparseFFN c)" "\<And>n d. P (Torch_to n d)"
    "\<And>d. P (Torch_device d)" "\<And>p d. P (Torch_load p d)" "\<And>n s. P (Torch_load_state_dict n s)"
  shows "emits P (Model_load lib device)"
  using emits_load_steps [of P lib device, OF assms]
  by (auto simp: emits_def Model_load_def split: option.splits)

lemma emits_Model_predict:
  assumes "\<And>n l d a b. P (SC_predict n l d a b)"
  shows "emits P (Model_predict lib loader)"
  unfolding Model_predict_def
  by (intro emits_bind emits_silent emits_call assms)

lemma emits_predict_steps:
  assumes "\<And>s. P (MT_read_input_file s)"
    "\<And>df. P (MT_do_prepare_prediction_online (build_data_preparation_args ps smiles) df)"
    "\<And>p b. P (SC_load_results p b)" "\<And>d f t. P (SC_fold_transform_inputs d f t)"
    "\<And>f sh. P (SC_load_check_sparse f sh)" "\<And>x y z. P (SC_ClassRegrSparseDataset x y z)"
    "\<And>ds a b c. P (Torch_DataLoader ds a b c)"
    "\<And>c. P (SC_SparseFFN c)" "\<And>n d. P (Torch_to n d)"
    "\<And>d. P (Torch_device d)" "\<And>p d. P (Torch_load p d)" "\<And>n s. P (Torch_load_state_dict n s)"
    "\<And>n l d a b. P (SC_predict n l d a b)"
  shows "emits P (predict_steps lib ps smiles)"
  unfolding predict_steps_def
  by (intro emits_bind emits_call emits_getters emits_Model_load emits_Model_predict assms)

lemma predict_events:
  "snd (snd (PredictionSystem_predict lib name smiles ps)) =
     (case ps_models ps name of None \<Rightarrow> [] | Some m \<Rightarrow> snd (snd (predict_steps lib ps smiles m)))"
  by (auto simp: PredictionSystem_predict_def with_model_known with_model_unknown
      split: option.splits prod.splits)

lemma predict_prepare_args:
  assumes "MT_do_prepare_prediction_online a df \<in> set (snd (snd (PredictionSystem_predict lib name smiles ps)))"
  shows "a = build_data_preparation_args ps smiles"
proof -
  let ?P = "\<lambda>ev. \<forall>a df. ev = MT_do_prepare_prediction_online a df \<longrightarrow>
              a = build_data_preparation_args ps smiles"
  have "emits ?P (predict_steps lib ps smiles)"
    by (rule emits_predict_steps) simp_all
  with assms show ?thesis
    by (auto simp: predict_events emits_def split: option.splits)
qed

lemma predict_steps_second:
  "mt_read_input_file lib (path_str smiles) = Inr df \<Longrightarrow>
   \<exists>rest. snd (snd (predict_steps lib ps smiles m)) =
     MT_read_input_file (path_str smiles) #
     MT_do_prepare_prediction_online (build_data_preparation_args ps smiles) df # rest"
  unfolding predict_steps_def by (simp add: bind_call_events)

lemma args_dom:
  "dom (build_data_preparation_args ps data_file) =
     {''structure_file'', ''config_file'', ''key_file'', ''run_name'', ''number_cpu'',
      ''non_interactive'', ''ref_hash''}"
  by (auto simp: build_data_preparation_args_def STRUCTURE_FILE_def CONFIG_FILE_def KEY_FILE_def
      RUN_NAME_def NUMBER_CPU_def NON_INTERACTIVE_def REF_HASH_def split: if_splits)

lemma args_values:
  "build_data_preparation_args ps data_file ''structure_file'' = Some (AStr (path_str data_file))"
  "build_data_preparation_args ps data_file ''config_file'' =
     Some (AStr (path_str (ps_tuner_configuration_parameters ps)))"
  "build_data_preparation_args ps data_file ''key_file'' =
     Some (AStr (path_str (ps_tuner_encryption_key ps)))"
  "build_data_preparation_args ps data_file ''run_name'' = Some (AStr ''mms'')"
  "build_data_preparation_args ps data_file ''number_cpu'' = Some (AInt 1)"
  "build_data_preparation_args ps data_file ''non_interactive'' = Some (ABool True)"
  "build_data_preparation_args ps data_file ''ref_hash'' = Some ANone"
  by (simp_all add: build_data_preparation_args_def STRUCTURE_FILE_def CONFIG_FILE_def KEY_FILE_def
      RUN_NAME_def NUMBER_CPU_def NON_INTERACTIVE_def REF_HASH_def PREPARATION_RUN_NAME_def)

lemma run_keeps_paths:
  assumes "PredictionSystem_init fs model_folder encryption_key preparation_parameters device = Inr ps0"
    and "run lib ops ps0 = (ps, es0)"
  shows "ps_tuner_encryption_key ps = encryption_key"
    "ps_tuner_configuration_parameters ps = preparation_parameters"
    "ps_device ps = device"
  using init_Inr [OF assms(1)] run_frame [of ps0 lib ops] assms(2)
  by (auto simp: registry_frame_def)

lemma emits_tail:
  "emits (\<lambda>ev. \<not> is_fold ev)
     (bind (Model_class_output_size lib) (\<lambda>cs.
      bind (call (SC_load_check_sparse None (n, cs)) (sc_load_check_sparse lib None (n, cs))) (\<lambda>y_class.
      bind (Model_regr_output_size lib) (\<lambda>rs.
      bind (call (SC_load_check_sparse None (n, rs)) (sc_load_check_sparse lib None (n, rs))) (\<lambda>y_regr.
      bind (call (SC_ClassRegrSparseDataset data y_class y_regr)
                 (sc_ClassRegrSparseDataset lib data y_class y_regr)) (\<lambda>dataset_te.
      bind (call (Torch_DataLoader dataset_te 4000 4 True)
                 (torch_DataLoader lib dataset_te 4000 4 True)) (\<lambda>loader.
      bind (Model_load lib device) (\<lambda>_.
      Model_predict lib loader))))))))"
  by (intro emits_bind emits_call emits_getters emits_Model_load emits_Model_predict) simp_all

lemma emits_all: "emits P f \<Longrightarrow> f m = (r, m', es) \<Longrightarrow> \<forall>ev \<in> set es. P ev"
  by (auto simp: emits_def dest: spec [of _ m])

lemma fold_event:
  assumes run: "predict_steps lib ps smiles m = (r, m', es)"
    and ev: "SC_fold_transform_inputs d f t \<in> set es"
  shows "\<exists>df c. mt_read_input_file lib (path_str smiles) = Inr df \<and>
           mt_do_prepare_prediction_online lib (build_data_preparation_args ps smiles) df = Inr d \<and>
           configuration lib m = Inr c \<and> c ''fold_inputs'' = Some f \<and> c ''input_transform'' = Some t"
proof -
  let ?nf = "\<lambda>ev::'a event. \<not> is_fold ev"
  have g: "emits ?nf (Model_fold_inputs lib)" "emits ?nf (Model_input_transform lib)"
    by (rule emits_getters; simp)+
  from run [unfolded predict_steps_def] show ?thesis
  proof (cases rule: bindE)
    case (fails e)
    with ev show ?thesis by simp
  next
    case (goes df m1 es1 es2)
    then have s1: "mt_read_input_file lib (path_str smiles) = Inr df" "m1 = m"
      "es1 = [MT_read_input_file (path_str smiles)]" by simp_all
    with goes(3) ev have ev2: "SC_fold_transform_inputs d f t \<in> set es2" by simp
    from goes(2) show ?thesis
    proof (cases rule: bindE)
      case (fails e)
      with ev2 show ?thesis by simp
    next
      case (goes data0 m2 es3 es4)
      then have s2: "mt_do_prepare_prediction_online lib (build_data_preparation_args ps smiles) df = Inr data0"
        "m2 = m" "es3 = [MT_do_prepare_prediction_online (build_data_preparation_args ps smiles) df]"
        using s1 by simp_all
      with goes(3) ev2 have ev4: "SC_fold_transform_inputs d f t \<in> set es4" by simp
      from goes(2) show ?thesis
      proof (cases rule: bindE)
        case (fails e)
        from emits_D [OF g(1) fails(1) ev4] show ?thesis by simp
      next
        case (goes fi m3 es5 es6)
        from goes(1) s2(2) obtain c where s3: "configuration lib m = Inr c" "c ''fold_inputs'' = Some fi"
          "m3 = m\<lparr>m_conf := Some c\<rparr>" by (auto simp: getters_Inr)
        from emits_all [OF g(1) goes(1)] goes(3) ev4
        have ev6: "SC_fold_transform_inputs d f t \<in> set es6" by auto
        from goes(2) show ?thesis
        proof (cases rule: bindE)
          case (fails e)
          from emits_D [OF g(2) fails(1) ev6] show ?thesis by simp
        next
          case (goes it m4 es7 es8)
          from goes(1) s3 have s4: "c ''input_transform'' = Some it"
            by (auto simp: getters_Inr)
          from emits_all [OF g(2) goes(1)] goes(3) ev6
          have ev8: "SC_fold_transform_inputs d f t \<in> set es8" by auto
          from goes(2) show ?thesis
          proof (cases rule: bindE)
            case (fails e)
            with ev8 have "d = data0 \<and> f = fi \<and> t = it" by simp
            with s1 s2 s3 s4 show ?thesis by blast
          next
            case (goes data m5 es9 es10)
            from emits_all [OF emits_tail goes(2)] have "\<forall>x \<in> set es10. \<not> is_fold x" .
            with goes(1,3) ev8 have "d = data0 \<and> f = fi \<and> t = it" by auto
            with s1 s2 s3 s4 show ?thesis by blast
          qed
        qed
      qed
    qed
  qed
qed

subsection \<open>Stored configuration and stored network\<close>

lemma Model_conf_stored: "m_conf m = Some c \<Longrightarrow> Model_conf lib m = (Inr c, m, [])"
  by (simp add: Model_conf_def)

lemma Model_conf_events: "snd (snd (Model_conf lib m)) = conf_events m"
  by (auto simp: Model_conf_def conf_events_def bind_def call_def split: option.splits sum.splits)

lemma Model_conf_read:
  "m_conf m = None \<Longrightarrow> sc_load_results lib (path_str (m_conf_path m)) True = Inr c \<Longrightarrow>
   Model_conf lib m = (Inr c, m\<lparr>m_conf := Some c\<rparr>, [SC_load_results (path_str (m_conf_path m)) True])"
  by (simp add: Model_conf_def bind_def call_def)

lemma Model_load_stored: "m_model m = Some n \<Longrightarrow> Model_load lib device m = (Inr (), m, [])"
  by (simp add: Model_load_def)

lemma load_steps_first:
  "\<exists>rest. snd (snd (load_steps lib device m)) =
     (case m_conf m of
        None \<Rightarrow> SC_load_results (path_str (m_conf_path m)) True
      | Some c \<Rightarrow> SC_SparseFFN c) # rest"
  by (cases "m_conf m")
    (auto simp: load_steps_def Model_conf_def bind_def call_def split: sum.splits prod.splits)

lemma run_keeps_model:
  assumes "ps_models ps name = Some m0"
  shows "\<exists>m1. ps_models (fst (run lib ops ps)) name = Some m1 \<and> model_frame m0 m1"
proof -
  have f: "registry_frame ps (fst (run lib ops ps))" by (rule run_frame)
  with assms have "name \<in> dom (ps_models (fst (run lib ops ps)))"
    by (auto simp: registry_frame_def)
  then obtain m1 where "ps_models (fst (run lib ops ps)) name = Some m1" by auto
  with f assms show ?thesis by (auto simp: registry_frame_def)
qed

lemma Model_load_loaded:
  assumes "m_model m = None" and "Model_load lib d1 m = (Inr u, m1, es1)"
  shows "\<exists>n. m_model m1 = Some n \<and> m_device m1 = Some d1"
  using assms by (auto simp: Model_load_Inr load_steps_Inr')

lemma Model_predict_loaded:
  assumes "m_model m = Some n" and "m_device m = Some d"
  shows "Model_predict lib loader m =
     (case sc_predict lib n loader d 0 False of
        Inl msg \<Rightarrow> Inl (Propagated msg)
      | Inr p \<Rightarrow> Inr p, m, [SC_predict n loader d 0 False])"
  using assms
  by (simp add: Model_predict_def bind_def read_model_def read_device_def call_def split: sum.splits)

subsection \<open>A prediction that returns, and the fold call it makes\<close>

lemma predict_steps_Inr_iff:
  "predict_steps lib ps smiles m = (Inr p, m', es) \<longleftrightarrow>
   (\<exists>df data0 c fi it data cs rs y_class y_regr dataset loader net dev les.
     mt_read_input_file lib (path_str smiles) = Inr df \<and>
     mt_do_prepare_prediction_online lib (build_data_preparation_args ps smiles) df = Inr data0 \<and>
     configuration lib m = Inr c \<and>
     c ''fold_inputs'' = Some fi \<and> c ''input_transform'' = Some it \<and>
     sc_fold_transform_inputs lib data0 fi it = Inr data \<and>
     c ''class_output_size'' = Some cs \<and> c ''regr_output_size'' = Some rs \<and>
     sc_load_check_sparse lib None (shape0 lib data, cs) = Inr y_class \<and>
     sc_load_check_sparse lib None (shape0 lib data, rs) = Inr y_regr \<and>
     sc_ClassRegrSparseDataset lib data y_class y_regr = Inr dataset \<and>
     torch_DataLoader lib dataset 4000 4 True = Inr loader \<and>
     (case m_model m of
        Some n \<Rightarrow>
          net = n \<and> m_device m = Some dev \<and> les = [] \<and> m' = m\<lparr>m_conf := Some c\<rparr>
      | None \<Rightarrow>
          (\<exists>net0 net1 d state.
             sc_SparseFFN lib c = Inr net0 \<and>
             torch_to lib net0 (ps_device ps) = Inr net1 \<and>
             torch_device lib (ps_device ps) = Inr d \<and>
             torch_load lib (m_model_path m) d = Inr state \<and>
             torch_load_state_dict lib net1 state = Inr net \<and>
             dev = ps_device ps \<and>
             les = [SC_SparseFFN c, Torch_to net0 (ps_device ps), Torch_device (ps_device ps),
                    Torch_load (m_model_path m) d, Torch_load_state_dict net1 state] \<and>
             m' = m\<lparr>m_conf := Some c, m_device := Some (ps_device ps), m_model := Some net\<rparr>)) \<and>
     sc_predict lib net loader dev 0 False = Inr p \<and>
     es = [MT_read_input_file (path_str smiles),
           MT_do_prepare_prediction_online (build_data_preparation_args ps smiles) df]
          @ conf_events m
          @ [SC_fold_transform_inputs data0 fi it,
             SC_load_check_sparse None (shape0 lib data, cs),
             SC_load_check_sparse None (shape0 lib data, rs),
             SC_ClassRegrSparseDataset data y_class y_regr,
             Torch_DataLoader dataset 4000 4 True]
          @ les @ [SC_predict net loader dev 0 False])"
  apply (simp add: predict_steps_def bind_Inr_iff getters_Inr Model_load_Inr Model_predict_Inr)
  apply (cases "m_model m")
   apply (rule iffI; (elim exE conjE)?; clarsimp simp: load_steps_Inr')
  apply (rule iffI; (elim exE conjE)?; clarsimp simp: load_steps_Inr')
  done


lemma bind_events_Inr:
  "f m = (Inr a, m', es1) \<Longrightarrow> snd (snd (bind f g m)) = es1 @ snd (snd (g a m'))"
  by (simp add: bind_def split: prod.splits)

lemma conf_events_no_fold: "filter is_fold (conf_events m) = []"
  by (simp add: conf_events_def split: option.splits)

lemma fold_made:
  assumes rd: "mt_read_input_file lib (path_str smiles) = Inr df"
    and pr: "mt_do_prepare_prediction_online lib (build_data_preparation_args ps smiles) df = Inr data0"
    and cf: "configuration lib m = Inr c"
    and fi: "c ''fold_inputs'' = Some fi" and it: "c ''input_transform'' = Some it"
  shows "filter is_fold (snd (snd (predict_steps lib ps smiles m))) =
           [SC_fold_transform_inputs data0 fi it]"
proof -
  have 3: "Model_fold_inputs lib m = (Inr fi, m\<lparr>m_conf := Some c\<rparr>, conf_events m)"
    using cf fi by (simp add: getters_Inr)
  have 4: "Model_input_transform lib (m\<lparr>m_conf := Some c\<rparr>) = (Inr it, m\<lparr>m_conf := Some c\<rparr>, [])"
    using it by (simp add: getters_Inr)
  have t: "\<not> is_fold ev"
    if "ev \<in> set (snd (snd (
     (bind (Model_class_output_size lib) (\<lambda>cs.
      bind (call (SC_load_check_sparse None (n, cs)) (sc_load_check_sparse lib None (n, cs))) (\<lambda>y_class.
      bind (Model_regr_output_size lib) (\<lambda>rs.
      bind (call (SC_load_check_sparse None (n, rs)) (sc_load_check_sparse lib None (n, rs))) (\<lambda>y_regr.
      bind (call (SC_ClassRegrSparseDataset data y_class y_regr)
                 (sc_ClassRegrSparseDataset lib data y_class y_regr)) (\<lambda>dataset_te.
      bind (call (Torch_DataLoader dataset_te 4000 4 True)
                 (torch_DataLoader lib dataset_te 4000 4 True)) (\<lambda>loader.
      bind (Model_load lib device) (\<lambda>_.
      Model_predict lib loader)))))))) m2)))" for ev n data device m2
    using emits_tail [of lib n data device] that by (auto simp: emits_def)
  show ?thesis
    unfolding predict_steps_def
    by (auto simp: bind_call_events rd pr
        bind_events_Inr [of "Model_fold_inputs lib" m, OF 3]
        bind_events_Inr [of "Model_input_transform lib" "m\<lparr>m_conf := Some c\<rparr>", OF 4]
        conf_events_no_fold filter_empty_conv split: sum.splits dest: t)
qed

subsection \<open>The order of the stages\<close>


lemma stages_simps [simp]:
  "stages [] = []"
  "stages (ev # es) = (case pipeline_stage ev of None \<Rightarrow> stages es | Some k \<Rightarrow> k # stages es)"
  by (simp_all add: stages_def split: option.splits)








subsection \<open>The small deployment, evaluated\<close>

lemma ex_init:
  "PredictionSystem_init ex_os [''models''] [''key.json''] [''parameters.json''] ''cpu'' = Inr ex_ps"
  by (simp add: PredictionSystem_init_def ex_os_def ex_ps_def Model_init_def joinpath_def ex_model_def)

lemma ex_args_eq: "build_data_preparation_args ex_ps [''smiles.csv''] = ex_args"
  by (simp add: build_data_preparation_args_def ex_ps_def ex_args_def STRUCTURE_FILE_def
      CONFIG_FILE_def KEY_FILE_def RUN_NAME_def NUMBER_CPU_def NON_INTERACTIVE_def REF_HASH_def
      PREPARATION_RUN_NAME_def)

lemma ex_ps_fields:
  "ps_device ex_ps = ''cpu''" "ps_models ex_ps ''m1'' = Some (ex_model ''m1'')"
  "ps_models ex_ps ''m2'' = Some (ex_model ''m2'')" "ps_models ex_ps ''m3'' = None"
  by (simp_all add: ex_ps_def)

lemma ex_predict_steps:
  "predict_steps ex_lib ex_ps [''smiles.csv''] (ex_model ''m1'') =
     (Inr (Matrix 2 3, Matrix 2 1), ex_loaded ''m1'', ex_events)"
  by (simp add: predict_steps_def ex_args_eq bind_def call_def ex_lib_def ex_model_def
      Model_fold_inputs_def Model_input_transform_def Model_class_output_size_def
      Model_regr_output_size_def Model_conf_def getattr_def ex_conf_def ex_shape_def
      Model_load_def load_steps_def Model_predict_def read_model_def read_device_def
      read_model_path_def ex_loaded_def ex_events_def ex_ps_fields)

lemma ex_predict:
  "PredictionSystem_predict ex_lib ''m1'' [''smiles.csv''] ex_ps =
     (Inr (Matrix 2 3, Matrix 2 1), ex_ps_warm, ex_events)"
  by (simp add: PredictionSystem_predict_def with_model_def get_model_def ex_predict_steps
      ex_ps_fields ex_ps_warm_def)

lemma ex_warm_fields:
  "ps_device ex_ps_warm = ''cpu''" "ps_models ex_ps_warm ''m1'' = Some (ex_loaded ''m1'')"
  "ps_models ex_ps_warm ''m2'' = Some (ex_model ''m2'')"
  "(ps_models ex_ps_warm)(''m1'' \<mapsto> ex_loaded ''m1'') = ps_models ex_ps_warm"
  by (auto simp: ex_ps_warm_def ex_ps_def)

lemma ex_args_warm: "build_data_preparation_args ex_ps_warm [''smiles.csv''] = ex_args"
  using ex_args_eq by (simp add: build_data_preparation_args_def ex_ps_warm_def)

lemma ex_predict_steps_warm:
  "predict_steps ex_lib ex_ps_warm [''smiles.csv''] (ex_loaded ''m1'') =
     (Inr (Matrix 2 3, Matrix 2 1), ex_loaded ''m1'', ex_events_warm)"
  by (simp add: predict_steps_def ex_args_warm bind_def call_def ex_lib_def ex_model_def
      Model_fold_inputs_def Model_input_transform_def Model_class_output_size_def
      Model_regr_output_size_def Model_conf_def getattr_def ex_conf_def ex_shape_def
      Model_load_def Model_predict_def read_model_def read_device_def ex_loaded_def
      ex_events_warm_def ex_warm_fields(1))

lemma ex_predict_warm:
  "PredictionSystem_predict ex_lib ''m1'' [''smiles.csv''] ex_ps_warm =
     (Inr (Matrix 2 3, Matrix 2 1), ex_ps_warm, ex_events_warm)"
  by (simp add: PredictionSystem_predict_def with_model_def get_model_def ex_predict_steps_warm
      ex_warm_fields)

lemma ex_run:
  "run ex_lib [Op_predict ''m1'' [''smiles.csv'']] ex_ps = (ex_ps_warm, ex_events)"
  by (simp add: ex_predict)


lemma ex_unknown:
  "PredictionSystem_predict ex_lib ''m3'' [''smiles.csv''] ex_ps =
     (Inl (ModelUnknownError ''Requested model does not exist''), ex_ps, [])"
  by (simp add: PredictionSystem_predict_def with_model_unknown ex_ps_fields)

lemma ex_listdir: "os_listdir ex_os [''models''] = Inr [''m1'', ''m2'']"
  by (simp add: ex_os_def)

lemma ex_dom: "dom (ps_models ex_ps) = {''m1'', ''m2''}"
  by (auto simp: ex_ps_def)

lemma ex_not_a_directory:
  "(PredictionSystem_init ex_os [''nowhere''] [''key.json''] [''parameters.json''] ''cpu''
      :: error + pyobj PredictionSystem) = Inl (NotADirectoryError ''nowhere is not a directory'')"
  by (simp add: PredictionSystem_init_def ex_os_def)

lemma ex_broken:
  "(PredictionSystem_init ex_os_broken [''models''] [''key.json''] [''parameters.json''] ''cpu''
      :: error + pyobj PredictionSystem) = Inl (FileNotFoundError [''models'', ''m2'', ''model.pth''])"
  by (simp add: PredictionSystem_init_def ex_os_broken_def ex_os_def Model_init_def joinpath_def)

lemma ex_no_attribute:
  "fst (Model_fold_inputs ex_lib ((ex_model ''m1'')\<lparr>m_conf := Some Map.empty\<rparr>)) =
     Inl (AttributeError ''fold_inputs'')"
  by (simp add: Model_fold_inputs_def bind_def Model_conf_def getattr_def)

lemma ex_fold_member:
  "SC_fold_transform_inputs (Matrix 2 8) (PyInt 4) (PyStr ''binarize'') \<in> set ex_events"
  by (simp add: ex_events_def)

lemma ex_conf_first:
  "Model_conf ex_lib (ex_model ''m1'') =
     (Inr ex_conf, (ex_model ''m1'')\<lparr>m_conf := Some ex_conf\<rparr>,
      [SC_load_results ''models/m1/hyperparameters.json'' True])"
  by (simp add: Model_conf_def bind_def call_def ex_lib_def ex_model_def)

lemma ex_conf_second:
  "Model_conf ex_lib ((ex_model ''m1'')\<lparr>m_conf := Some ex_conf\<rparr>) =
     (Inr ex_conf, (ex_model ''m1'')\<lparr>m_conf := Some ex_conf\<rparr>, [])"
  by (simp add: Model_conf_def)


lemma ex_load_first:
  "Model_load ex_lib ''cpu'' (ex_model ''m1'') =
     (Inr (), ex_loaded ''m1'',
      [SC_load_results ''models/m1/hyperparameters.json'' True, SC_SparseFFN ex_conf,
       Torch_to (Net ''initial'') ''cpu'', Torch_device ''cpu'',
       Torch_load [''models'', ''m1'', ''model.pth''] (PyStr ''cpu''),
       Torch_load_state_dict (Net ''initial'') StateDict])"
  by (simp add: Model_load_def load_steps_def Model_conf_def bind_def call_def read_device_def
      read_model_def read_model_path_def ex_lib_def ex_model_def ex_loaded_def)

lemma ex_fresh: "m_model (ex_model ''m1'') = None"
  by (simp add: ex_model_def)



lemma ex_lib_calls:
  "mt_read_input_file ex_lib ''smiles.csv'' = Inr (Matrix 2 1)"
  "mt_do_prepare_prediction_online ex_lib ex_args (Matrix 2 1) = Inr (Matrix 2 8)"
  "sc_fold_transform_inputs ex_lib (Matrix 2 8) (PyInt 4) (PyStr ''binarize'') = Inr (Matrix 2 4)"
  "shape0 ex_lib (Matrix 2 4) = PyInt 2"
  "sc_load_check_sparse ex_lib None (PyInt 2, PyInt 3) = Inr (Matrix 2 3)"
  "sc_load_check_sparse ex_lib None (PyInt 2, PyInt 1) = Inr (Matrix 2 1)"
  "sc_ClassRegrSparseDataset ex_lib (Matrix 2 4) (Matrix 2 3) (Matrix 2 1) =
     Inr (Dataset (Matrix 2 4) (Matrix 2 3) (Matrix 2 1))"
  "torch_DataLoader ex_lib (Dataset (Matrix 2 4) (Matrix 2 3) (Matrix 2 1)) 4000 4 True =
     Inr (Loader (Dataset (Matrix 2 4) (Matrix 2 3) (Matrix 2 1)))"
  "sc_predict ex_lib (Net ''trained'') (Loader (Dataset (Matrix 2 4) (Matrix 2 3) (Matrix 2 1)))
     ''cpu'' 0 False = Inr (Matrix 2 3, Matrix 2 1)"
  "sc_SparseFFN ex_lib ex_conf = Inr (Net ''initial'')"
  "torch_to ex_lib (Net ''initial'') ''cpu'' = Inr (Net ''initial'')"
  "torch_device ex_lib ''cpu'' = Inr (PyStr ''cpu'')"
  "torch_load ex_lib [''models'', ''m1'', ''model.pth''] (PyStr ''cpu'') = Inr StateDict"
  "torch_load_state_dict ex_lib (Net ''initial'') StateDict = Inr (Net ''trained'')"
  by (simp_all add: ex_lib_def ex_shape_def)

lemma ex_conf_values:
  "ex_conf ''fold_inputs'' = Some (PyInt 4)" "ex_conf ''input_transform'' = Some (PyStr ''binarize'')"
  "ex_conf ''class_output_size'' = Some (PyInt 3)" "ex_conf ''regr_output_size'' = Some (PyInt 1)"
  by (simp_all add: ex_conf_def)

lemma ex_configuration:
  "configuration ex_lib (ex_model ''m1'') = Inr ex_conf"
  "configuration ex_lib (ex_loaded ''m1'') = Inr ex_conf"
  "conf_events (ex_model ''m1'') = [SC_load_results ''models/m1/hyperparameters.json'' True]"
  "conf_events (ex_loaded ''m1'') = []"
  by (simp_all add: configuration_def conf_events_def ex_model_def ex_loaded_def ex_lib_def)






section \<open>The properties\<close>




text \<open>
  C2. For every deployment and every name, \<^verbatim>\<open>predict\<close> raises \<^verbatim>\<open>ModelUnknownError\<close> if and
  only if the name is not a key of the registry; when it does, the deployment is
  unchanged and no delegated call was made (no reading, preparation, folding, loading
  or inference). The keys of the registry of a deployment built by the constructor,
  after any sequence of later operations, are the entries of the model folder.
\<close>

theorem predict_unknown_model:
  "((\<exists>msg. fst (PredictionSystem_predict lib model_name smiles ps) = Inl (ModelUnknownError msg))
      = (model_name \<notin> dom (ps_models ps))) \<and>
   (model_name \<notin> dom (ps_models ps) \<longrightarrow>
      PredictionSystem_predict lib model_name smiles ps =
        (Inl (ModelUnknownError ''Requested model does not exist''), ps, [])) \<and>
   (\<forall>fs model_folder key params device names ps0 ops.
      PredictionSystem_init fs model_folder key params device = Inr ps0 \<longrightarrow>
      os_listdir fs model_folder = Inr names \<longrightarrow>
      fst (run lib ops ps0) = ps \<longrightarrow>
      dom (ps_models ps) = set names)"
proof (intro conjI allI impI)
  show "(\<exists>msg. fst (PredictionSystem_predict lib model_name smiles ps) = Inl (ModelUnknownError msg))
      = (model_name \<notin> dom (ps_models ps))"
  proof (cases "ps_models ps model_name")
    case None
    then show ?thesis by (simp add: PredictionSystem_predict_def with_model_unknown domIff)
  next
    case (Some m)
    have "fst (PredictionSystem_predict lib model_name smiles ps) \<noteq> Inl (ModelUnknownError msg)" for msg
      using predict_raises [OF _ Some, of lib smiles "ModelUnknownError msg"] by auto
    with Some show ?thesis by auto
  qed
next
  assume "model_name \<notin> dom (ps_models ps)"
  then show "PredictionSystem_predict lib model_name smiles ps =
        (Inl (ModelUnknownError ''Requested model does not exist''), ps, [])"
    by (simp add: PredictionSystem_predict_def with_model_unknown domIff)
next
  fix fs model_folder key params device names ps0 ops
  assume init: "PredictionSystem_init fs model_folder key params device = Inr ps0"
    and ls: "os_listdir fs model_folder = Inr names"
    and run: "fst (run lib ops ps0) = ps"
  from run_frame [of ps0 lib ops] run have "dom (ps_models ps) = dom (ps_models ps0)"
    by (simp add: registry_frame_def)
  with init_dom [OF init ls] show "dom (ps_models ps) = set names" by simp
qed

theorem predict_unknown_model_witness:
  "''m3'' \<notin> dom (ps_models ex_ps) \<and>
   PredictionSystem_predict ex_lib ''m3'' [''smiles.csv''] ex_ps =
     (Inl (ModelUnknownError ''Requested model does not exist''), ex_ps, []) \<and>
   PredictionSystem_init ex_os [''models''] [''key.json''] [''parameters.json''] ''cpu'' = Inr ex_ps \<and>
   os_listdir ex_os [''models''] = Inr [''m1'', ''m2''] \<and>
   fst (run ex_lib [] ex_ps) = ex_ps \<and>
   dom (ps_models ex_ps) = set [''m1'', ''m2'']"
proof -
  note t = predict_unknown_model [of ex_lib "''m3''" "[''smiles.csv'']" ex_ps]
  have 1: "''m3'' \<notin> dom (ps_models ex_ps)" by (simp add: ex_dom)
  with t have 2: "PredictionSystem_predict ex_lib ''m3'' [''smiles.csv''] ex_ps =
     (Inl (ModelUnknownError ''Requested model does not exist''), ex_ps, [])" by blast
  have 3: "fst (run ex_lib [] ex_ps) = ex_ps" by simp
  from t ex_init ex_listdir 3 have "dom (ps_models ex_ps) = set [''m1'', ''m2'']" by blast
  with 1 2 3 ex_init ex_listdir show ?thesis by blast
qed

text \<open>
  C3, as the code has it. Apart from errors propagated from the delegated calls, the
  layer raises of its own \<^verbatim>\<open>NotADirectoryError\<close> and \<^verbatim>\<open>FileNotFoundError\<close> while a
  deployment is constructed and \<^verbatim>\<open>ModelUnknownError\<close> when a model is looked up under an
  unregistered name. The only other failure of an operation is Python's
  \<^verbatim>\<open>AttributeError\<close> on reading an attribute that is missing (a value absent from the
  configuration; the network or the device of a model that was never loaded).
  \<^verbatim>\<open>Model.conf\<close> and \<^verbatim>\<open>Model.load\<close> raise nothing of their own.
\<close>

theorem own_errors:
  "(\<forall>e. (PredictionSystem_init fs model_folder key params device :: error + 'o PredictionSystem) = Inl e \<longrightarrow>
        (\<exists>msg. e = NotADirectoryError msg) \<or> (\<exists>p. e = FileNotFoundError p) \<or> propagated e) \<and>
   (\<forall>e. (Model_init fs p :: error + 'o Model) = Inl e \<longrightarrow> (\<exists>q. e = FileNotFoundError q)) \<and>
   (\<forall>e. get_model ps model_name = Inl e \<longrightarrow> (\<exists>msg. e = ModelUnknownError msg)) \<and>
   (\<forall>e. fst (PredictionSystem_predict lib model_name smiles ps) = Inl e \<longrightarrow>
        (\<exists>msg. e = ModelUnknownError msg) \<or> attribute_or_propagated e) \<and>
   (\<forall>e. fst (Model_conf lib m) = Inl e \<longrightarrow> propagated e) \<and>
   (\<forall>e. fst (Model_load lib device m) = Inl e \<longrightarrow> propagated e) \<and>
   (\<forall>e. fst (Model_class_output_size lib m) = Inl e \<or> fst (Model_regr_output_size lib m) = Inl e \<or>
        fst (Model_fold_inputs lib m) = Inl e \<or> fst (Model_input_transform lib m) = Inl e \<or>
        fst (Model_predict lib loader m) = Inl e \<longrightarrow> attribute_or_propagated e)"
proof (intro conjI allI impI)
  fix e
  assume "(PredictionSystem_init fs model_folder key params device :: error + 'o PredictionSystem) = Inl e"
  then show "(\<exists>msg. e = NotADirectoryError msg) \<or> (\<exists>p. e = FileNotFoundError p) \<or> propagated e"
    by (rule init_errors)
next
  fix e
  assume "(Model_init fs p :: error + 'o Model) = Inl e"
  then show "\<exists>q. e = FileNotFoundError q"
    by (auto simp: Model_init_def Let_def split: if_splits)
next
  fix e
  assume "get_model ps model_name = Inl e"
  then show "\<exists>msg. e = ModelUnknownError msg"
    by (auto simp: get_model_def split: option.splits)
next
  fix e
  assume e: "fst (PredictionSystem_predict lib model_name smiles ps) = Inl e"
  show "(\<exists>msg. e = ModelUnknownError msg) \<or> attribute_or_propagated e"
  proof (cases "ps_models ps model_name")
    case None
    with e show ?thesis by (auto simp: PredictionSystem_predict_def with_model_unknown)
  next
    case (Some m)
    from predict_raises [OF e Some] show ?thesis by simp
  qed
next
  fix e
  assume "fst (Model_conf lib m) = Inl e"
  then show "propagated e" by (rule Model_conf_propagated)
next
  fix e
  assume "fst (Model_load lib device m) = Inl e"
  then show "propagated e" by (rule Model_load_propagated)
next
  fix e
  assume "fst (Model_class_output_size lib m) = Inl e \<or> fst (Model_regr_output_size lib m) = Inl e \<or>
        fst (Model_fold_inputs lib m) = Inl e \<or> fst (Model_input_transform lib m) = Inl e \<or>
        fst (Model_predict lib loader m) = Inl e"
  then show "attribute_or_propagated e"
    by (blast dest: raises_onlyD [OF raises_only_getters(1)] raises_onlyD [OF raises_only_getters(2)]
        raises_onlyD [OF raises_only_getters(3)] raises_onlyD [OF raises_only_getters(4)]
        raises_onlyD [OF raises_only_Model_predict])
qed

theorem own_errors_witness:
  "(PredictionSystem_init ex_os [''nowhere''] [''key.json''] [''parameters.json''] ''cpu''
      :: error + pyobj PredictionSystem) = Inl (NotADirectoryError ''nowhere is not a directory'') \<and>
   (PredictionSystem_init ex_os_broken [''models''] [''key.json''] [''parameters.json''] ''cpu''
      :: error + pyobj PredictionSystem) = Inl (FileNotFoundError [''models'', ''m2'', ''model.pth'']) \<and>
   fst (PredictionSystem_predict ex_lib ''m3'' [''smiles.csv''] ex_ps) =
     Inl (ModelUnknownError ''Requested model does not exist'') \<and>
   fst (Model_fold_inputs ex_lib ((ex_model ''m1'')\<lparr>m_conf := Some Map.empty\<rparr>)) =
     Inl (AttributeError ''fold_inputs'') \<and>
   attribute_or_propagated (AttributeError ''fold_inputs'')"
proof -
  note t = own_errors [where fs = ex_os and model_folder = "[''nowhere'']" and key = "[''key.json'']"
      and params = "[''parameters.json'']" and device = "''cpu''" and p = "[''models'', ''m1'']"
      and ps = ex_ps and model_name = "''m3''" and lib = ex_lib and smiles = "[''smiles.csv'']"
      and m = "(ex_model ''m1'')\<lparr>m_conf := Some Map.empty\<rparr>" and loader = "Matrix 0 0"]
  from t ex_no_attribute have "attribute_or_propagated (AttributeError ''fold_inputs'')" by blast
  with ex_not_a_directory ex_broken ex_unknown ex_no_attribute show ?thesis by simp
qed

text \<open>
  C3 as stated (the lookup miss is the only error the layer itself raises) fails:
  constructing a deployment on a path that is not a directory raises
  \<^verbatim>\<open>NotADirectoryError\<close>, which is neither the lookup miss nor a propagated error.
\<close>

theorem own_errors_counterexample:
  "(PredictionSystem_init ex_os [''nowhere''] [''key.json''] [''parameters.json''] ''cpu''
      :: error + pyobj PredictionSystem) = Inl (NotADirectoryError ''nowhere is not a directory'') \<and>
   \<not> lookup_miss_or_propagated (NotADirectoryError ''nowhere is not a directory'')"
  by (simp add: ex_not_a_directory)

text \<open>
  C4. When the constructor succeeds on \<open>model_folder\<close>, the registry maps exactly the
  entry names that \<^verbatim>\<open>os.listdir\<close> gives for the folder, each to the handle that
  \<^verbatim>\<open>Model(model_folder / name)\<close> builds, whose path is the folder joined with the name.
\<close>

theorem init_registry:
  assumes "PredictionSystem_init fs model_folder encryption_key preparation_parameters device = Inr ps"
  shows "\<exists>names. os_listdir fs model_folder = Inr names \<and>
           dom (ps_models ps) = set names \<and>
           (\<forall>d \<in> set names. \<exists>m. ps_models ps d = Some m \<and>
              m_path m = joinpath model_folder d \<and>
              Model_init fs (joinpath model_folder d) = Inr m)"
proof -
  from init_Inr [OF assms] obtain names where
    ls: "os_listdir fs model_folder = Inr names" and
    b: "build_models fs model_folder names Map.empty = Inr (ps_models ps)" by blast
  note r = build_models_Inr [OF b]
  have "\<exists>m. ps_models ps d = Some m \<and> m_path m = joinpath model_folder d \<and>
          Model_init fs (joinpath model_folder d) = Inr m" if "d \<in> set names" for d
  proof -
    from r that have i: "Model_init fs (joinpath model_folder d) = Inr (the (ps_models ps d))"
      and "d \<in> dom (ps_models ps)" by auto
    then obtain m where m: "ps_models ps d = Some m" by auto
    with i have "Model_init fs (joinpath model_folder d) = Inr m" by simp
    with m show ?thesis by (auto simp: Model_init_Inr)
  qed
  with ls r show ?thesis by auto
qed

theorem init_registry_witness:
  "PredictionSystem_init ex_os [''models''] [''key.json''] [''parameters.json''] ''cpu'' = Inr ex_ps \<and>
   (\<exists>names. os_listdir ex_os [''models''] = Inr names \<and> names = [''m1'', ''m2''] \<and>
      dom (ps_models ex_ps) = set names \<and>
      (\<exists>m. ps_models ex_ps ''m2'' = Some m \<and> m_path m = joinpath [''models''] ''m2''))"
proof -
  from init_registry [OF ex_init] obtain names where
    n: "os_listdir ex_os [''models''] = Inr names" "dom (ps_models ex_ps) = set names"
    "\<forall>d \<in> set names. \<exists>m. ps_models ex_ps d = Some m \<and> m_path m = joinpath [''models''] d \<and>
        Model_init ex_os (joinpath [''models''] d) = Inr m" by blast
  from n(1) have e: "names = [''m1'', ''m2'']" by (simp add: ex_listdir)
  with n(3) have "\<exists>m. ps_models ex_ps ''m2'' = Some m \<and> m_path m = joinpath [''models''] ''m2''"
    by auto
  with n e ex_init show ?thesis by blast
qed

text \<open>
  C5. In every \<^verbatim>\<open>predict\<close> call on a deployment built by the constructor (after any
  sequence of earlier operations), every preparation request handed to
  \<^verbatim>\<open>melloddy_tuner\<close> has exactly seven entries: the given structure file, the parameters
  file and the key file given to the constructor, the run name \<^verbatim>\<open>mms\<close>, \<^verbatim>\<open>number_cpu\<close> 1,
  \<^verbatim>\<open>non_interactive\<close> true and \<^verbatim>\<open>ref_hash\<close> \<^verbatim>\<open>None\<close>. The request is made whenever the
  model is registered and the structure file could be read.
\<close>

theorem preparation_request:
  assumes init: "PredictionSystem_init fs model_folder encryption_key preparation_parameters device = Inr ps0"
    and ops: "run lib ops ps0 = (ps, es0)"
    and call: "PredictionSystem_predict lib model_name smiles ps = (r, ps', es)"
  shows "(\<forall>a df. MT_do_prepare_prediction_online a df \<in> set es \<longrightarrow>
            dom a = {''structure_file'', ''config_file'', ''key_file'', ''run_name'', ''number_cpu'',
                     ''non_interactive'', ''ref_hash''} \<and>
            a ''structure_file'' = Some (AStr (path_str smiles)) \<and>
            a ''config_file'' = Some (AStr (path_str preparation_parameters)) \<and>
            a ''key_file'' = Some (AStr (path_str encryption_key)) \<and>
            a ''run_name'' = Some (AStr ''mms'') \<and>
            a ''number_cpu'' = Some (AInt 1) \<and>
            a ''non_interactive'' = Some (ABool True) \<and>
            a ''ref_hash'' = Some ANone) \<and>
         (\<forall>df. model_name \<in> dom (ps_models ps) \<longrightarrow>
            mt_read_input_file lib (path_str smiles) = Inr df \<longrightarrow>
            (\<exists>a. MT_do_prepare_prediction_online a df \<in> set es))"
proof (intro conjI allI impI)
  fix a df
  assume "MT_do_prepare_prediction_online a df \<in> set es"
  with call have "a = build_data_preparation_args ps smiles"
    using predict_prepare_args [of a df lib model_name smiles ps] by simp
  then show "dom a = {''structure_file'', ''config_file'', ''key_file'', ''run_name'', ''number_cpu'',
                     ''non_interactive'', ''ref_hash''}"
    and "a ''structure_file'' = Some (AStr (path_str smiles))"
    and "a ''config_file'' = Some (AStr (path_str preparation_parameters))"
    and "a ''key_file'' = Some (AStr (path_str encryption_key))"
    and "a ''run_name'' = Some (AStr ''mms'')"
    and "a ''number_cpu'' = Some (AInt 1)"
    and "a ''non_interactive'' = Some (ABool True)"
    and "a ''ref_hash'' = Some ANone"
    by (simp_all add: args_dom args_values run_keeps_paths [OF init ops])
next
  fix df
  assume "model_name \<in> dom (ps_models ps)" and rd: "mt_read_input_file lib (path_str smiles) = Inr df"
  then obtain m where m: "ps_models ps model_name = Some m" by auto
  from predict_steps_second [OF rd, of ps m] call m
  show "\<exists>a. MT_do_prepare_prediction_online a df \<in> set es"
    using predict_events [of lib model_name smiles ps] by auto
qed

theorem preparation_request_witness:
  "PredictionSystem_init ex_os [''models''] [''key.json''] [''parameters.json''] ''cpu'' = Inr ex_ps \<and>
   run ex_lib [Op_predict ''m1'' [''smiles.csv'']] ex_ps = (ex_ps_warm, ex_events) \<and>
   PredictionSystem_predict ex_lib ''m1'' [''smiles.csv''] ex_ps_warm =
     (Inr (Matrix 2 3, Matrix 2 1), ex_ps_warm, ex_events_warm) \<and>
   MT_do_prepare_prediction_online ex_args (Matrix 2 1) \<in> set ex_events_warm \<and>
   dom ex_args = {''structure_file'', ''config_file'', ''key_file'', ''run_name'', ''number_cpu'',
                  ''non_interactive'', ''ref_hash''} \<and>
   ex_args ''structure_file'' = Some (AStr ''smiles.csv'') \<and>
   ex_args ''config_file'' = Some (AStr ''parameters.json'') \<and>
   ex_args ''key_file'' = Some (AStr ''key.json'') \<and>
   ex_args ''run_name'' = Some (AStr ''mms'') \<and>
   ex_args ''number_cpu'' = Some (AInt 1) \<and>
   ex_args ''non_interactive'' = Some (ABool True) \<and>
   ex_args ''ref_hash'' = Some ANone"
proof -
  have ev: "MT_do_prepare_prediction_online ex_args (Matrix 2 1) \<in> set ex_events_warm"
    by (simp add: ex_events_warm_def)
  note t = preparation_request [OF ex_init ex_run ex_predict_warm, THEN conjunct1, rule_format, OF ev]
  from t ex_init ex_run ex_predict_warm ev show ?thesis by simp
qed

text \<open>
  C6, as the code has it. Every fold/transform step of a \<^verbatim>\<open>predict\<close> call is the call
  \<^verbatim>\<open>sparsechem.fold_transform_inputs\<close>, a call into the sparse network library, made on
  the matrix that the tuner preparation returned, with the \<^verbatim>\<open>fold_inputs\<close> and
  \<^verbatim>\<open>input_transform\<close> values of the configuration of the model found (the stored one,
  or else the one read from its \<^verbatim>\<open>hyperparameters.json\<close>). The call is made, exactly
  once, whenever the read and the preparation return and the configuration has the two
  values; in particular in every \<^verbatim>\<open>predict\<close> call that returns.
\<close>

theorem fold_transform_request:
  assumes reg: "ps_models ps model_name = Some model"
    and call: "PredictionSystem_predict lib model_name smiles ps = (r, ps', es)"
  shows "(\<forall>d f t. SC_fold_transform_inputs d f t \<in> set es \<longrightarrow>
            library_of (SC_fold_transform_inputs d f t) = Sparsechem \<and>
            (\<exists>df c. mt_read_input_file lib (path_str smiles) = Inr df \<and>
               mt_do_prepare_prediction_online lib (build_data_preparation_args ps smiles) df = Inr d \<and>
               configuration lib model = Inr c \<and>
               c ''fold_inputs'' = Some f \<and> c ''input_transform'' = Some t)) \<and>
         (\<forall>df data0 c fi it.
            mt_read_input_file lib (path_str smiles) = Inr df \<longrightarrow>
            mt_do_prepare_prediction_online lib (build_data_preparation_args ps smiles) df = Inr data0 \<longrightarrow>
            configuration lib model = Inr c \<longrightarrow>
            c ''fold_inputs'' = Some fi \<longrightarrow> c ''input_transform'' = Some it \<longrightarrow>
            filter is_fold es = [SC_fold_transform_inputs data0 fi it]) \<and>
         (\<forall>p. r = Inr p \<longrightarrow> (\<exists>d f t. filter is_fold es = [SC_fold_transform_inputs d f t]))"
proof -
  obtain r0 m' es0 where steps: "predict_steps lib ps smiles model = (r0, m', es0)"
    by (cases "predict_steps lib ps smiles model") auto
  with reg call have eq: "r = r0" "es = es0"
    by (auto simp: PredictionSystem_predict_def with_model_known)
  have a: "library_of (SC_fold_transform_inputs d f t) = Sparsechem \<and>
            (\<exists>df c. mt_read_input_file lib (path_str smiles) = Inr df \<and>
               mt_do_prepare_prediction_online lib (build_data_preparation_args ps smiles) df = Inr d \<and>
               configuration lib model = Inr c \<and>
               c ''fold_inputs'' = Some f \<and> c ''input_transform'' = Some t)"
    if "SC_fold_transform_inputs d f t \<in> set es" for d f t
    using that steps eq by (auto dest: fold_event)
  have b: "filter is_fold es = [SC_fold_transform_inputs data0 fi it]"
    if "mt_read_input_file lib (path_str smiles) = Inr df"
      "mt_do_prepare_prediction_online lib (build_data_preparation_args ps smiles) df = Inr data0"
      "configuration lib model = Inr c" "c ''fold_inputs'' = Some fi" "c ''input_transform'' = Some it"
    for df data0 c fi it
    using fold_made [OF that] steps eq by simp
  have c: "\<exists>d f t. filter is_fold es = [SC_fold_transform_inputs d f t]" if "r = Inr p" for p
  proof -
    from that steps eq have "predict_steps lib ps smiles model = (Inr p, m', es)" by simp
    then obtain df data0 c fi it where
      "mt_read_input_file lib (path_str smiles) = Inr df"
      "mt_do_prepare_prediction_online lib (build_data_preparation_args ps smiles) df = Inr data0"
      "configuration lib model = Inr c" "c ''fold_inputs'' = Some fi" "c ''input_transform'' = Some it"
      unfolding predict_steps_Inr_iff by blast
    from b [OF this] show ?thesis by blast
  qed
  from a b c show ?thesis by blast
qed

theorem fold_transform_request_witness:
  "ps_models ex_ps ''m1'' = Some (ex_model ''m1'') \<and>
   PredictionSystem_predict ex_lib ''m1'' [''smiles.csv''] ex_ps =
     (Inr (Matrix 2 3, Matrix 2 1), ex_ps_warm, ex_events) \<and>
   mt_read_input_file ex_lib (path_str [''smiles.csv'']) = Inr (Matrix 2 1) \<and>
   mt_do_prepare_prediction_online ex_lib (build_data_preparation_args ex_ps [''smiles.csv''])
     (Matrix 2 1) = Inr (Matrix 2 8) \<and>
   configuration ex_lib (ex_model ''m1'') = Inr ex_conf \<and>
   ex_conf ''fold_inputs'' = Some (PyInt 4) \<and> ex_conf ''input_transform'' = Some (PyStr ''binarize'') \<and>
   filter is_fold ex_events = [SC_fold_transform_inputs (Matrix 2 8) (PyInt 4) (PyStr ''binarize'')] \<and>
   SC_fold_transform_inputs (Matrix 2 8) (PyInt 4) (PyStr ''binarize'') \<in> set ex_events \<and>
   library_of (SC_fold_transform_inputs (Matrix 2 8) (PyInt 4) (PyStr ''binarize'') :: pyobj event)
     = Sparsechem"
proof -
  note t = fold_transform_request [OF ex_ps_fields(2) ex_predict]
  have h: "mt_read_input_file ex_lib (path_str [''smiles.csv'']) = Inr (Matrix 2 1)"
    "mt_do_prepare_prediction_online ex_lib (build_data_preparation_args ex_ps [''smiles.csv''])
       (Matrix 2 1) = Inr (Matrix 2 8)"
    by (simp_all add: ex_lib_calls ex_args_eq del: One_nat_def)
  from t [THEN conjunct2, THEN conjunct1, rule_format, OF h ex_configuration(1) ex_conf_values(1,2)]
  have f: "filter is_fold ex_events =
      [SC_fold_transform_inputs (Matrix 2 8) (PyInt 4) (PyStr ''binarize'')]" .
  from t [THEN conjunct1, rule_format, OF ex_fold_member]
  have l: "library_of (SC_fold_transform_inputs (Matrix 2 8) (PyInt 4) (PyStr ''binarize'') :: pyobj event)
     = Sparsechem" by blast
  from h f l ex_ps_fields(2) ex_predict ex_configuration(1) ex_conf_values(1,2) ex_fold_member
  show ?thesis by blast
qed

text \<open>
  C6 as stated (the step is performed by the chemistry-descriptor toolkit) fails: in
  the small deployment the fold/transform call is not a call into \<^verbatim>\<open>melloddy_tuner\<close>,
  whose only calls in a prediction are the read of the input file and the preparation.
\<close>

theorem fold_transform_request_counterexample:
  "SC_fold_transform_inputs (Matrix 2 8) (PyInt 4) (PyStr ''binarize'') \<in>
     set (snd (snd (PredictionSystem_predict ex_lib ''m1'' [''smiles.csv''] ex_ps))) \<and>
   library_of (SC_fold_transform_inputs (Matrix 2 8) (PyInt 4) (PyStr ''binarize'') :: pyobj event)
     \<noteq> Melloddy_tuner \<and>
   filter (\<lambda>ev. library_of ev = Melloddy_tuner)
     (snd (snd (PredictionSystem_predict ex_lib ''m1'' [''smiles.csv''] ex_ps))) =
     [MT_read_input_file ''smiles.csv'', MT_do_prepare_prediction_online ex_args (Matrix 2 1)]"
  by (simp add: ex_predict) (simp add: ex_events_def)

text \<open>
  C7, as the code has it. Nothing is evicted and no prediction is kept for reuse: a
  \<^verbatim>\<open>predict\<close> call on a registered model always starts with the delegated read of the
  structure file. But a model keeps its configuration and its network once it has
  them. An access to the configuration returns the stored one without any delegated
  call; only while none is stored does it make the library read, and it stores what
  the read returned. \<^verbatim>\<open>Model.load\<close> does nothing when a network is stored, and makes
  delegated calls when none is. A stored configuration and a stored network stay as
  they are through every later operation.
\<close>

theorem memoisation:
  "(\<forall>c. m_conf m = Some c \<longrightarrow> Model_conf lib m = (Inr c, m, [])) \<and>
   (m_conf m = None \<longrightarrow>
      snd (snd (Model_conf lib m)) = [SC_load_results (path_str (m_conf_path m)) True]) \<and>
   (\<forall>c. m_conf m = None \<longrightarrow> sc_load_results lib (path_str (m_conf_path m)) True = Inr c \<longrightarrow>
      Model_conf lib m =
        (Inr c, m\<lparr>m_conf := Some c\<rparr>, [SC_load_results (path_str (m_conf_path m)) True])) \<and>
   (\<forall>n. m_model m = Some n \<longrightarrow> Model_load lib device m = (Inr (), m, [])) \<and>
   (m_model m = None \<longrightarrow>
      (\<exists>rest. snd (snd (Model_load lib device m)) =
         (case m_conf m of
            None \<Rightarrow> SC_load_results (path_str (m_conf_path m)) True
          | Some c \<Rightarrow> SC_SparseFFN c) # rest)) \<and>
   (\<forall>name ops. ps_models ps name = Some m \<longrightarrow>
      (\<exists>m1. ps_models (fst (run lib ops ps)) name = Some m1 \<and>
         (m_conf m \<noteq> None \<longrightarrow> m_conf m1 = m_conf m) \<and>
         (m_model m \<noteq> None \<longrightarrow> m_model m1 = m_model m))) \<and>
   (\<forall>model_name smiles. ps_models ps model_name = Some m \<longrightarrow>
      (\<exists>rest. snd (snd (PredictionSystem_predict lib model_name smiles ps)) =
         MT_read_input_file (path_str smiles) # rest))"
proof (intro conjI allI impI)
  fix c assume "m_conf m = Some c"
  then show "Model_conf lib m = (Inr c, m, [])" by (rule Model_conf_stored)
next
  assume "m_conf m = None"
  then show "snd (snd (Model_conf lib m)) = [SC_load_results (path_str (m_conf_path m)) True]"
    by (simp add: Model_conf_events conf_events_def)
next
  fix c assume "m_conf m = None" "sc_load_results lib (path_str (m_conf_path m)) True = Inr c"
  then show "Model_conf lib m =
        (Inr c, m\<lparr>m_conf := Some c\<rparr>, [SC_load_results (path_str (m_conf_path m)) True])"
    by (rule Model_conf_read)
next
  fix n assume "m_model m = Some n"
  then show "Model_load lib device m = (Inr (), m, [])" by (rule Model_load_stored)
next
  assume "m_model m = None"
  with load_steps_first [of lib device m]
  show "\<exists>rest. snd (snd (Model_load lib device m)) =
         (case m_conf m of
            None \<Rightarrow> SC_load_results (path_str (m_conf_path m)) True
          | Some c \<Rightarrow> SC_SparseFFN c) # rest"
    by (simp add: Model_load_def)
next
  fix name ops assume "ps_models ps name = Some m"
  from run_keeps_model [OF this, of lib ops]
  show "\<exists>m1. ps_models (fst (run lib ops ps)) name = Some m1 \<and>
         (m_conf m \<noteq> None \<longrightarrow> m_conf m1 = m_conf m) \<and>
         (m_model m \<noteq> None \<longrightarrow> m_model m1 = m_model m)"
    by (auto simp: model_frame_def conf_frame_def)
next
  fix model_name smiles assume "ps_models ps model_name = Some m"
  with predict_steps_first [of lib ps smiles m]
  show "\<exists>rest. snd (snd (PredictionSystem_predict lib model_name smiles ps)) =
         MT_read_input_file (path_str smiles) # rest"
    by (simp add: predict_events)
qed

theorem memoisation_witness:
  "m_conf ((ex_model ''m1'')\<lparr>m_conf := Some ex_conf\<rparr>) = Some ex_conf \<and>
   Model_conf ex_lib ((ex_model ''m1'')\<lparr>m_conf := Some ex_conf\<rparr>) =
     (Inr ex_conf, (ex_model ''m1'')\<lparr>m_conf := Some ex_conf\<rparr>, []) \<and>
   m_conf (ex_model ''m1'') = None \<and>
   snd (snd (Model_conf ex_lib (ex_model ''m1''))) =
     [SC_load_results (path_str (m_conf_path (ex_model ''m1''))) True] \<and>
   m_model (ex_loaded ''m1'') = Some (Net ''trained'') \<and>
   Model_load ex_lib ''cuda:0'' (ex_loaded ''m1'') = (Inr (), ex_loaded ''m1'', []) \<and>
   ps_models ex_ps_warm ''m1'' = Some (ex_loaded ''m1'') \<and>
   (\<exists>rest. snd (snd (PredictionSystem_predict ex_lib ''m1'' [''smiles.csv''] ex_ps_warm)) =
      MT_read_input_file ''smiles.csv'' # rest)"
proof -
  note t1 = memoisation [where m = "(ex_model ''m1'')\<lparr>m_conf := Some ex_conf\<rparr>" and lib = ex_lib]
  note t2 = memoisation [where m = "ex_model ''m1''" and lib = ex_lib]
  note t3 = memoisation [where m = "ex_loaded ''m1''" and lib = ex_lib and device = "''cuda:0''"
      and ps = ex_ps_warm]
  have a: "m_conf ((ex_model ''m1'')\<lparr>m_conf := Some ex_conf\<rparr>) = Some ex_conf" by simp
  have b: "m_conf (ex_model ''m1'') = None" by (simp add: ex_model_def)
  have c: "m_model (ex_loaded ''m1'') = Some (Net ''trained'')" by (simp add: ex_loaded_def)
  from t1 a have 1: "Model_conf ex_lib ((ex_model ''m1'')\<lparr>m_conf := Some ex_conf\<rparr>) =
     (Inr ex_conf, (ex_model ''m1'')\<lparr>m_conf := Some ex_conf\<rparr>, [])" by blast
  from t2 b have 2: "snd (snd (Model_conf ex_lib (ex_model ''m1''))) =
     [SC_load_results (path_str (m_conf_path (ex_model ''m1''))) True]" by blast
  from t3 c have 3: "Model_load ex_lib ''cuda:0'' (ex_loaded ''m1'') = (Inr (), ex_loaded ''m1'', [])"
    by blast
  from t3 ex_warm_fields(2)
  have 4: "\<exists>rest. snd (snd (PredictionSystem_predict ex_lib ''m1'' [''smiles.csv''] ex_ps_warm)) =
      MT_read_input_file (path_str [''smiles.csv'']) # rest" by blast
  from a b c 1 2 3 4 ex_warm_fields(2) show ?thesis by simp
qed

text \<open>
  C7 as stated (every access to the configuration and every \<^verbatim>\<open>Model.load\<close> performs the
  library read again) fails: the first access to the configuration of \<^verbatim>\<open>m1\<close> makes the
  library read and stores the result, the second access makes no delegated call, and
  \<^verbatim>\<open>load\<close> on the loaded model makes none either.
\<close>

theorem memoisation_counterexample:
  "snd (snd (Model_conf ex_lib (ex_model ''m1''))) =
     [SC_load_results ''models/m1/hyperparameters.json'' True] \<and>
   snd (snd (Model_conf ex_lib (fst (snd (Model_conf ex_lib (ex_model ''m1'')))))) = [] \<and>
   m_conf (fst (snd (Model_conf ex_lib (ex_model ''m1'')))) = Some ex_conf \<and>
   snd (snd (Model_load ex_lib ''cpu'' (ex_loaded ''m1''))) = []"
  by (simp add: ex_conf_first ex_conf_second) (simp add: Model_load_def ex_loaded_def)

text \<open>
  C8. The constructor validates the whole deployment at once: it raises
  \<^verbatim>\<open>NotADirectoryError\<close> when \<open>model_folder\<close> is not a directory, and when the folder
  is a directory whose listing has an entry without \<^verbatim>\<open>hyperparameters.json\<close> or without
  \<^verbatim>\<open>model.pth\<close>, it raises \<^verbatim>\<open>FileNotFoundError\<close> for a missing file of such an entry: one
  malformed entry makes the construction of the whole registry fail.
\<close>

theorem init_validates:
  "(\<not> os_path_isdir fs model_folder \<longrightarrow>
      (PredictionSystem_init fs model_folder key params device :: error + 'o PredictionSystem) =
        Inl (NotADirectoryError (path_str model_folder @ '' is not a directory''))) \<and>
   (os_path_isdir fs model_folder \<longrightarrow> os_listdir fs model_folder = Inr names \<longrightarrow>
      (\<exists>d \<in> set names. \<not> well_formed_entry fs model_folder d) \<longrightarrow>
      (\<exists>d \<in> set names. \<exists>p.
         (PredictionSystem_init fs model_folder key params device :: error + 'o PredictionSystem) =
           Inl (FileNotFoundError p) \<and>
         \<not> os_path_isfile fs p \<and>
         (p = joinpath (joinpath model_folder d) ''hyperparameters.json'' \<or>
          p = joinpath (joinpath model_folder d) ''model.pth'')))"
proof (intro conjI impI)
  assume "\<not> os_path_isdir fs model_folder"
  then show "(PredictionSystem_init fs model_folder key params device :: error + 'o PredictionSystem) =
        Inl (NotADirectoryError (path_str model_folder @ '' is not a directory''))"
    by (simp add: PredictionSystem_init_def)
next
  assume d: "os_path_isdir fs model_folder" and ls: "os_listdir fs model_folder = Inr names"
    and bad: "\<exists>d \<in> set names. \<not> well_formed_entry fs model_folder d"
  from build_models_missing [OF bad, of "Map.empty :: string \<rightharpoonup> 'o Model"]
  obtain e p where "e \<in> set names"
    "build_models fs model_folder names (Map.empty :: string \<rightharpoonup> 'o Model) = Inl (FileNotFoundError p)"
    "\<not> os_path_isfile fs p"
    "p = joinpath (joinpath model_folder e) ''hyperparameters.json'' \<or>
     p = joinpath (joinpath model_folder e) ''model.pth''"
    by blast
  with d ls show "\<exists>d \<in> set names. \<exists>p.
         (PredictionSystem_init fs model_folder key params device :: error + 'o PredictionSystem) =
           Inl (FileNotFoundError p) \<and>
         \<not> os_path_isfile fs p \<and>
         (p = joinpath (joinpath model_folder d) ''hyperparameters.json'' \<or>
          p = joinpath (joinpath model_folder d) ''model.pth'')"
    by (auto simp: PredictionSystem_init_def)
qed

theorem init_validates_witness:
  "\<not> os_path_isdir ex_os [''nowhere''] \<and>
   (PredictionSystem_init ex_os [''nowhere''] [''key.json''] [''parameters.json''] ''cpu''
      :: error + pyobj PredictionSystem) = Inl (NotADirectoryError ''nowhere is not a directory'') \<and>
   os_path_isdir ex_os_broken [''models''] \<and>
   os_listdir ex_os_broken [''models''] = Inr [''m1'', ''m2''] \<and>
   well_formed_entry ex_os_broken [''models''] ''m1'' \<and>
   \<not> well_formed_entry ex_os_broken [''models''] ''m2'' \<and>
   (\<exists>p. (PredictionSystem_init ex_os_broken [''models''] [''key.json''] [''parameters.json''] ''cpu''
           :: error + pyobj PredictionSystem) = Inl (FileNotFoundError p) \<and>
        \<not> os_path_isfile ex_os_broken p)"
proof -
  have a: "\<not> os_path_isdir ex_os [''nowhere'']" by (simp add: ex_os_def)
  have b: "os_path_isdir ex_os_broken [''models'']"
    "os_listdir ex_os_broken [''models''] = Inr [''m1'', ''m2'']"
    by (simp_all add: ex_os_broken_def ex_os_def)
  have c: "well_formed_entry ex_os_broken [''models''] ''m1''"
    "\<not> well_formed_entry ex_os_broken [''models''] ''m2''"
    by (simp_all add: well_formed_entry_def ex_os_broken_def ex_os_def joinpath_def)
  then have d: "\<exists>d \<in> set [''m1'', ''m2'']. \<not> well_formed_entry ex_os_broken [''models''] d" by simp
  note t1 = init_validates [of ex_os "[''nowhere'']" "[''key.json'']" "[''parameters.json'']" "''cpu''"
      "[]", where ?'o = pyobj]
  note t2 = init_validates [of ex_os_broken "[''models'']" "[''key.json'']" "[''parameters.json'']"
      "''cpu''" "[''m1'', ''m2'']", where ?'o = pyobj]
  from t1 a have 1: "(PredictionSystem_init ex_os [''nowhere''] [''key.json''] [''parameters.json''] ''cpu''
      :: error + pyobj PredictionSystem) = Inl (NotADirectoryError ''nowhere is not a directory'')"
    by simp
  from t2 b d have 2: "\<exists>p. (PredictionSystem_init ex_os_broken [''models''] [''key.json''] [''parameters.json''] ''cpu''
           :: error + pyobj PredictionSystem) = Inl (FileNotFoundError p) \<and>
        \<not> os_path_isfile ex_os_broken p" by blast
  from a b c 1 2 show ?thesis by blast
qed

text \<open>
  C9. Once \<^verbatim>\<open>load(d1)\<close> has loaded a model that had no network, the model holds a
  network and the device \<open>d1\<close>; every later \<^verbatim>\<open>load(d2)\<close>, for any \<open>d2\<close>, returns without
  a delegated call and leaves the model exactly as it is; \<^verbatim>\<open>Model.predict\<close> runs the
  stored network on \<open>d1\<close>; and after any sequence of later operations on a deployment
  holding the model, the network and the device are still the same.
\<close>

theorem load_once:
  assumes fresh: "m_model m = None"
    and loaded: "Model_load lib d1 m = (Inr u, m1, es1)"
  shows "\<exists>n. m_model m1 = Some n \<and> m_device m1 = Some d1 \<and>
     (\<forall>d2. Model_load lib d2 m1 = (Inr (), m1, [])) \<and>
     (\<forall>loader. Model_predict lib loader m1 =
        (case sc_predict lib n loader d1 0 False of
           Inl msg \<Rightarrow> Inl (Propagated msg)
         | Inr p \<Rightarrow> Inr p, m1, [SC_predict n loader d1 0 False])) \<and>
     (\<forall>ps name ops m2.
        ps_models ps name = Some m1 \<longrightarrow>
        ps_models (fst (run lib ops ps)) name = Some m2 \<longrightarrow>
        m_model m2 = Some n \<and> m_device m2 = Some d1)"
proof -
  from Model_load_loaded [OF fresh loaded] obtain n where
    n: "m_model m1 = Some n" "m_device m1 = Some d1" by blast
  have a: "Model_load lib d2 m1 = (Inr (), m1, [])" for d2
    using n(1) by (rule Model_load_stored)
  have b: "Model_predict lib loader m1 =
        (case sc_predict lib n loader d1 0 False of
           Inl msg \<Rightarrow> Inl (Propagated msg)
         | Inr p \<Rightarrow> Inr p, m1, [SC_predict n loader d1 0 False])" for loader
    using n by (rule Model_predict_loaded)
  have c: "m_model m2 = Some n \<and> m_device m2 = Some d1"
    if "ps_models ps name = Some m1" "ps_models (fst (run lib ops ps)) name = Some m2"
    for ps name ops m2
    using run_keeps_model [OF that(1), of lib ops] that(2) n
    by (auto simp: model_frame_def)
  from n a b c show ?thesis by blast
qed

theorem load_once_witness:
  "m_model (ex_model ''m1'') = None \<and>
   Model_load ex_lib ''cpu'' (ex_model ''m1'') =
     (Inr (), ex_loaded ''m1'',
      [SC_load_results ''models/m1/hyperparameters.json'' True, SC_SparseFFN ex_conf,
       Torch_to (Net ''initial'') ''cpu'', Torch_device ''cpu'',
       Torch_load [''models'', ''m1'', ''model.pth''] (PyStr ''cpu''),
       Torch_load_state_dict (Net ''initial'') StateDict]) \<and>
   m_model (ex_loaded ''m1'') = Some (Net ''trained'') \<and>
   m_device (ex_loaded ''m1'') = Some ''cpu'' \<and>
   Model_load ex_lib ''cuda:0'' (ex_loaded ''m1'') = (Inr (), ex_loaded ''m1'', []) \<and>
   snd (snd (Model_predict ex_lib (Loader (Dataset (Matrix 2 4) (Matrix 2 3) (Matrix 2 1)))
     (ex_loaded ''m1''))) =
     [SC_predict (Net ''trained'') (Loader (Dataset (Matrix 2 4) (Matrix 2 3) (Matrix 2 1))) ''cpu'' 0 False]"
proof -
  from load_once [OF ex_fresh ex_load_first] obtain n where
    n: "m_model (ex_loaded ''m1'') = Some n" "m_device (ex_loaded ''m1'') = Some ''cpu''"
      "\<forall>d2. Model_load ex_lib d2 (ex_loaded ''m1'') = (Inr (), ex_loaded ''m1'', [])"
      "\<forall>loader. Model_predict ex_lib loader (ex_loaded ''m1'') =
        (case sc_predict ex_lib n loader ''cpu'' 0 False of
           Inl msg \<Rightarrow> Inl (Propagated msg)
         | Inr p \<Rightarrow> Inr p, ex_loaded ''m1'', [SC_predict n loader ''cpu'' 0 False])"
    by blast
  from n(1) have e: "n = Net ''trained''" by (simp add: ex_loaded_def)
  from n(4) e have "snd (snd (Model_predict ex_lib (Loader (Dataset (Matrix 2 4) (Matrix 2 3) (Matrix 2 1)))
     (ex_loaded ''m1''))) =
     [SC_predict (Net ''trained'') (Loader (Dataset (Matrix 2 4) (Matrix 2 3) (Matrix 2 1))) ''cpu'' 0 False]"
    by simp
  with n(1,2,3) e ex_fresh ex_load_first show ?thesis by simp
qed




end
